theory Spec2Isabelle
  imports Complex_Main
begin

section \<open>Text\<close>

text \<open>
  A Python \<open>str\<close> is a sequence of Unicode code points, so text is a list of code point
  numbers. \<open>asc\<close> embeds an ASCII literal; the Japanese message texts of the source are
  written out as their code points.
\<close>

type_synonym ustr = "nat list"

definition asc :: "string \<Rightarrow> ustr" where
  "asc s = map of_char s"

text \<open>\<open>s.startswith(p)\<close>.\<close>

definition startswith :: "ustr \<Rightarrow> ustr \<Rightarrow> bool" where
  "startswith s p = (take (length p) s = p)"

text \<open>\<open>s.split(sep)\<close> for a separator of one character: the pieces between the separators,
  empty pieces included, so the result is never the empty list.\<close>

fun split :: "nat \<Rightarrow> ustr \<Rightarrow> ustr list" where
  "split sep [] = [[]]"
| "split sep (c # cs) =
     (if c = sep then [] # split sep cs
      else (case split sep cs of [] \<Rightarrow> [[c]] | p # ps \<Rightarrow> (c # p) # ps))"

section \<open>The values handed back by the scripting call\<close>

text \<open>
  A Python exception that the handler \<open>except Exception as e\<close> receives:
  \<open>type(e).__name__\<close> and \<open>str(e)\<close>. The handlers of the source all name
  \<open>Exception\<close>, so the raised values of the model are of that class; the signals by
  which the interpreter is interrupted or left (KeyboardInterrupt, SystemExit) are not
  failures of a call and are not modelled.
\<close>

datatype pyexc = PyExc (type_name: ustr) (str_of: ustr)

text \<open>The result descriptor of \<open>executeAndReturnError_\<close>; \<open>stringValue()\<close> is \<open>None\<close>
  when the descriptor has no text.\<close>

datatype descriptor = NSAppleEventDescriptor (stringValue: "ustr option")

text \<open>A non-empty error dictionary: its \<open>NSAppleScriptErrorMessage\<close> entry, when it has
  one, and the text \<open>str(error)\<close>. A missing or empty dictionary is falsy in \<open>if error:\<close>
  and is \<open>None\<close> here.\<close>

datatype error_info = ErrorInfo (NSAppleScriptErrorMessage: "ustr option") (str_error: ustr)

type_synonym script_outcome = "pyexc + (descriptor option \<times> error_info option)"

section \<open>Message texts of checkMuteStatus\<close>

definition DEFAULT_MUTED :: ustr where
  "DEFAULT_MUTED =
     [12458, 12540, 12487, 12451, 12458, 12398, 12511, 12517, 12540, 12488, 35299, 38500]"

definition DEFAULT_UNMUTED :: ustr where
  "DEFAULT_UNMUTED =
     [12458, 12540, 12487, 12451, 12458, 12398, 12511, 12517, 12540, 12488]"

definition msg_applescript_error :: "ustr \<Rightarrow> ustr" where
  "msg_applescript_error error_msg =
     asc ''AppleScript'' @ [12456, 12521, 12540] @ asc '':'' @ [10] @ error_msg
     @ [10, 10, 12450, 12463, 12475, 12471, 12499, 12522, 12486, 12451, 27177, 38480, 12434,
        30906, 35469, 12375, 12390, 12367, 12384, 12373, 12356]"

definition msg_not_running :: ustr where
  "msg_not_running = asc ''Zoom'' @ [12364, 36215, 21205, 12375, 12390, 12356, 12414, 12379, 12435]"

definition msg_keyword_not_found :: "ustr \<Rightarrow> ustr \<Rightarrow> ustr" where
  "msg_keyword_not_found muted_keyword unmuted_keyword =
     [12461, 12540, 12527, 12540, 12489, 12364, 35211, 12388, 12363, 12426, 12414, 12379, 12435,
      10, 10, 12511, 12517, 12540, 12488, 12461, 12540, 12527, 12540, 12489] @ asc '': ''
     @ muted_keyword
     @ [10, 12511, 12517, 12540, 12488, 35299, 38500, 12461, 12540, 12527, 12540, 12489] @ asc '': ''
     @ unmuted_keyword
     @ [10, 10, 30011, 38754, 19978, 37096, 12473, 12486, 12540, 12479, 12473, 12496, 12540, 12398]
     @ asc ''Zoom''
     @ [12450, 12452, 12467, 12531, 12434, 25276, 12375, 12383, 26178, 12395, 34920, 31034, 12373,
        12428, 12427, 38917, 30446, 12434, 30906, 35469, 12375, 12390, 12367, 12384, 12373, 12356]"

definition msg_actual_items :: ustr where
  "msg_actual_items = [10, 10, 12304, 23455, 38555, 12398, 12513, 12491, 12517, 12540, 38917, 30446, 12305, 10]"

definition msg_unknown_status :: "ustr \<Rightarrow> ustr" where
  "msg_unknown_status status = [19981, 26126, 12394, 12473, 12486, 12540, 12479, 12473] @ asc '': '' @ status"

definition msg_unexpected :: "pyexc \<Rightarrow> ustr" where
  "msg_unexpected e =
     [20104, 26399, 12375, 12394, 12356, 12456, 12521, 12540] @ asc '':'' @ [10]
     @ type_name e @ asc '': '' @ str_of e"

section \<open>checkMuteStatus: the Python side\<close>

text \<open>
  The loop \<open>for item in menu_items.split('|'): if item: error_details += f"- {item}\n"\<close>.
\<close>

fun append_items :: "ustr \<Rightarrow> ustr list \<Rightarrow> ustr" where
  "append_items error_details [] = error_details"
| "append_items error_details (item # items) =
     (if item \<noteq> [] then append_items (error_details @ asc ''- '' @ item @ [10]) items
      else append_items error_details items)"

text \<open>
  The chain of tests on \<open>status\<close> (source lines 427 to 453). The result is the returned
  value (\<open>Some True\<close> muted, \<open>Some False\<close> unmuted, \<open>None\<close> unknown) and the value that
  the branch stores in \<open>self.last_error\<close>. The two keywords are the texts that the f-strings
  insert for \<open>self.config.muted_keyword\<close> and \<open>self.config.unmuted_keyword\<close>.
\<close>

definition interpret_status :: "ustr \<Rightarrow> ustr \<Rightarrow> ustr \<Rightarrow> bool option \<times> ustr option" where
  "interpret_status muted_keyword unmuted_keyword status =
     (if status = asc ''muted'' then (Some True, None)
      else if status = asc ''unmuted'' then (Some False, None)
      else (None, Some
        (if status = asc ''not_running'' then msg_not_running
         else if startswith status (asc ''unknown:'') then
           append_items (msg_keyword_not_found muted_keyword unmuted_keyword @ msg_actual_items)
             (split 124 (drop 8 status))
         else if startswith status (asc ''error:'') then msg_applescript_error (drop 6 status)
         else if status = asc ''unknown'' then msg_keyword_not_found muted_keyword unmuted_keyword
         else msg_unknown_status status)))"

text \<open>
  The body of the \<open>try\<close> block, given what the two NSAppleScript calls did: they raised, or
  returned \<open>(result, error)\<close>. \<open>str(None)\<close> is the text \<open>None\<close>.
\<close>

definition try_body :: "script_outcome \<Rightarrow> ustr \<Rightarrow> ustr \<Rightarrow> pyexc + (bool option \<times> ustr option)" where
  "try_body outcome muted_keyword unmuted_keyword =
     (case outcome of
        Inl e \<Rightarrow> Inl e
      | Inr (result, error) \<Rightarrow>
          (case error of
             Some info \<Rightarrow>
               Inr (None, Some (msg_applescript_error
                 (case NSAppleScriptErrorMessage info of Some m \<Rightarrow> m | None \<Rightarrow> str_error info)))
           | None \<Rightarrow>
               Inr (interpret_status muted_keyword unmuted_keyword
                 (case result of
                    None \<Rightarrow> asc ''unknown''
                  | Some r \<Rightarrow> (case stringValue r of None \<Rightarrow> asc ''None'' | Some s \<Rightarrow> s)))))"

text \<open>
  The whole method on a given outcome of the scripting calls: \<open>Inl\<close> would be an exception
  leaving the method, \<open>Inr (value, last_error)\<close> a return. Every path assigns
  \<open>self.last_error\<close>, so the slot after the call does not depend on the slot before.
\<close>

definition checkMuteStatus_on :: "script_outcome \<Rightarrow> ustr \<Rightarrow> ustr \<Rightarrow> pyexc + (bool option \<times> ustr option)" where
  "checkMuteStatus_on outcome muted_keyword unmuted_keyword =
     (case try_body outcome muted_keyword unmuted_keyword of
        Inl e \<Rightarrow> Inr (None, Some (msg_unexpected e))
      | Inr r \<Rightarrow> Inr r)"

section \<open>checkMuteStatus: the generated AppleScript\<close>

text \<open>
  The script is an f-string: the two keywords are pasted between double quotes, with no
  escaping, in \<open>set mutedKeyword to "..."\<close> and \<open>set unmutedKeyword to "..."\<close>.
  \<open>as_literal k\<close> is the text that the AppleScript string literal \<open>"k"\<close> denotes: a
  backslash starts an escape (\<open>\"\<close>, \<open>\\\<close>, \<open>\n\<close>, \<open>\r\<close>, \<open>\t\<close>), and a double
  quote that is not escaped ends the literal. The value is \<open>None\<close> when \<open>"k"\<close> is not one
  whole literal; the pasted source is then some other program text.
\<close>

definition as_escape :: "nat \<Rightarrow> nat option" where
  "as_escape c =
     (if c = 34 then Some 34
      else if c = 92 then Some 92
      else if c = 110 then Some 10
      else if c = 114 then Some 13
      else if c = 116 then Some 9
      else None)"

fun as_literal :: "ustr \<Rightarrow> ustr option" where
  "as_literal [] = Some []"
| "as_literal [c] = (if c = 34 \<or> c = 92 then None else Some [c])"
| "as_literal (c # e # rest) =
     (if c = 34 then None
      else if c = 92 then
        (case as_escape e of
           None \<Rightarrow> None
         | Some v \<Rightarrow> map_option ((#) v) (as_literal rest))
      else map_option ((#) c) (as_literal (e # rest)))"

text \<open>
  What the script finds outside itself, and the runtime it runs on:
  \<^item> \<open>scripting\<close>: whether the NSAppleScript calls raise a Python exception, hand back an
    error dictionary (the script did not run to a \<open>return\<close>: not permitted, not
    compiled), or run the script;
  \<^item> \<open>other_source\<close>: what the call hands back for a source text whose keyword literals
    are broken;
  \<^item> \<open>is_equal_to\<close>: the text comparison \<open>is equal to\<close> of the AppleScript runtime. It
    is not written in the source; by default AppleScript ignores case in it;
  \<^item> \<open>process_exists\<close>: \<open>exists process "name"\<close> of System Events;
  \<^item> \<open>meeting_menu\<close>: for a process, \<open>name of menu items of menu 1\<close> of its menu bar
    item, each name \<open>as text\<close>, or the message of the error raised on the way.
\<close>

datatype scripting = Raises pyexc | Fails error_info | Executes

record system_events =
  scripting :: scripting
  other_source :: "descriptor option \<times> error_info option"
  is_equal_to :: "ustr \<Rightarrow> ustr \<Rightarrow> bool"
  process_exists :: "ustr \<Rightarrow> bool"
  meeting_menu :: "ustr \<Rightarrow> ustr + ustr list"

text \<open>What a run of the script does to System Events, in order.\<close>

datatype event = Exists ustr | ReadMenu ustr | Compared ustr ustr

text \<open>
  \<open>repeat with meetingItem in meetingMenuItems\<close> with a \<open>return\<close> at the first item that
  is equal to the keyword: whether an item was found, and the comparisons made.
\<close>

fun repeat_with :: "(ustr \<Rightarrow> ustr \<Rightarrow> bool) \<Rightarrow> ustr \<Rightarrow> ustr list \<Rightarrow> bool \<times> event list" where
  "repeat_with eq keyword [] = (False, [])"
| "repeat_with eq keyword (meetingItem # items) =
     (if eq meetingItem keyword then (True, [Compared meetingItem keyword])
      else (case repeat_with eq keyword items of
              (found, evs) \<Rightarrow> (found, Compared meetingItem keyword # evs)))"

text \<open>The third loop: \<open>set itemList to itemList & (menuItem as text) & "|"\<close>.\<close>

fun item_list :: "ustr \<Rightarrow> ustr list \<Rightarrow> ustr" where
  "item_list itemList [] = itemList"
| "item_list itemList (menuItem # items) = item_list (itemList @ menuItem @ [124]) items"

text \<open>The block \<open>tell process zoomProcName\<close> with its \<open>try\<close>.\<close>

definition tell_process :: "system_events \<Rightarrow> ustr \<Rightarrow> ustr \<Rightarrow> ustr \<Rightarrow> ustr \<times> event list" where
  "tell_process env zoomProcName mutedKeyword unmutedKeyword =
     (case meeting_menu env zoomProcName of
        Inl errMsg \<Rightarrow> (asc ''error:'' @ errMsg, [ReadMenu zoomProcName])
      | Inr meetingMenuItems \<Rightarrow>
          (case repeat_with (is_equal_to env) mutedKeyword meetingMenuItems of
             (muted, evs1) \<Rightarrow>
               if muted then (asc ''muted'', ReadMenu zoomProcName # evs1)
               else
                 (case repeat_with (is_equal_to env) unmutedKeyword meetingMenuItems of
                    (unmuted, evs2) \<Rightarrow>
                      if unmuted then (asc ''unmuted'', ReadMenu zoomProcName # evs1 @ evs2)
                      else (asc ''unknown:'' @ item_list [] meetingMenuItems,
                            ReadMenu zoomProcName # evs1 @ evs2))))"

text \<open>The script, with the values of its two keyword literals: the text it returns and
  what it did.\<close>

definition run_script :: "system_events \<Rightarrow> ustr \<Rightarrow> ustr \<Rightarrow> ustr \<times> event list" where
  "run_script env mutedKeyword unmutedKeyword =
     (if process_exists env (asc ''zoom.us'') then
        (case tell_process env (asc ''zoom.us'') mutedKeyword unmutedKeyword of
           (status, evs) \<Rightarrow> (status, Exists (asc ''zoom.us'') # evs))
      else if process_exists env (asc ''Zoom'') then
        (case tell_process env (asc ''Zoom'') mutedKeyword unmutedKeyword of
           (status, evs) \<Rightarrow> (status, Exists (asc ''zoom.us'') # Exists (asc ''Zoom'') # evs))
      else (asc ''not_running'', [Exists (asc ''zoom.us''), Exists (asc ''Zoom'')]))"

text \<open>
  \<open>NSAppleScript.alloc().initWithSource_(script)\<close> and \<open>executeAndReturnError_(None)\<close>
  on the source text built from the two configured keywords, with the events of the run
  (none when the script above is not what ran).
\<close>

definition executeAndReturnError :: "system_events \<Rightarrow> ustr \<Rightarrow> ustr \<Rightarrow> script_outcome \<times> event list" where
  "executeAndReturnError env muted_keyword unmuted_keyword =
     (case scripting env of
        Raises e \<Rightarrow> (Inl e, [])
      | Fails info \<Rightarrow> (Inr (None, Some info), [])
      | Executes \<Rightarrow>
          (case (as_literal muted_keyword, as_literal unmuted_keyword) of
             (Some mutedKeyword, Some unmutedKeyword) \<Rightarrow>
               (case run_script env mutedKeyword unmutedKeyword of
                  (status, evs) \<Rightarrow> (Inr (Some (NSAppleEventDescriptor (Some status)), None), evs))
           | _ \<Rightarrow> (Inr (other_source env), [])))"

text \<open>One poll: the method on the world as it is. \<open>check_events\<close> is what the poll did.\<close>

definition checkMuteStatus :: "system_events \<Rightarrow> ustr \<Rightarrow> ustr \<Rightarrow> pyexc + (bool option \<times> ustr option)" where
  "checkMuteStatus env muted_keyword unmuted_keyword =
     checkMuteStatus_on (fst (executeAndReturnError env muted_keyword unmuted_keyword))
       muted_keyword unmuted_keyword"

definition check_events :: "system_events \<Rightarrow> ustr \<Rightarrow> ustr \<Rightarrow> event list" where
  "check_events env muted_keyword unmuted_keyword =
     snd (executeAndReturnError env muted_keyword unmuted_keyword)"

section \<open>Config: the settings file\<close>

text \<open>
  The values that \<open>json.load\<close> produces and \<open>json.dump\<close> accepts. The attributes of a
  \<open>Config\<close> object hold such values: \<open>load\<close> stores whatever the file has under a key,
  of whatever type. A \<open>dict\<close> is the list of its items, the keys distinct. A Python
  \<open>float\<close> is taken as the number it stands for.
\<close>

datatype pyval =
    PNone
  | PBool bool
  | PInt int
  | PFloat real
  | PStr ustr
  | PList "pyval list"
  | PDict "(ustr \<times> pyval) list"

text \<open>\<open>type(v).__name__\<close>, as the message of an AttributeError prints it.\<close>

fun py_type_name :: "pyval \<Rightarrow> ustr" where
  "py_type_name PNone = asc ''NoneType''"
| "py_type_name (PBool b) = asc ''bool''"
| "py_type_name (PInt i) = asc ''int''"
| "py_type_name (PFloat r) = asc ''float''"
| "py_type_name (PStr s) = asc ''str''"
| "py_type_name (PList vs) = asc ''list''"
| "py_type_name (PDict kvs) = asc ''dict''"

text \<open>\<open>data.get(key, default)\<close> on a dict.\<close>

definition dict_get :: "(ustr \<times> pyval) list \<Rightarrow> ustr \<Rightarrow> pyval \<Rightarrow> pyval" where
  "dict_get data key dflt = (case map_of data key of Some v \<Rightarrow> v | None \<Rightarrow> dflt)"

record Config =
  window_x :: pyval
  window_y :: pyval
  icon_size :: pyval
  muted_keyword :: pyval
  unmuted_keyword :: pyval
  check_interval :: pyval

text \<open>
  The settings file as \<open>load\<close> meets it: not there (\<open>os.path.exists\<close> is false), there
  but \<open>open\<close> raises, opened but \<open>json.load\<close> raises, or holding a JSON document.
  \<open>next_write\<close> is what the file system does on \<open>save\<close>: the document is written;
  \<open>os.makedirs\<close> or \<open>open\<close> raises and the file stays as it was; or the write raises
  part way and leaves a file that \<open>json.load\<close> rejects. \<open>printed\<close> is the standard output.
\<close>

datatype config_file = Missing | Unopenable pyexc | Unparsable pyexc | Document pyval

datatype writing = Written | NotWritten pyexc | Torn pyexc pyexc

record disk =
  config_file :: config_file
  next_write :: writing
  printed :: "ustr list"

text \<open>The values \<open>__init__\<close> assigns before it calls \<open>load\<close>.\<close>

definition Config_defaults :: Config where
  "Config_defaults =
     \<lparr>window_x = PNone, window_y = PNone, icon_size = PInt 100,
      muted_keyword = PStr DEFAULT_MUTED, unmuted_keyword = PStr DEFAULT_UNMUTED,
      check_interval = PInt 200\<rparr>"

text \<open>The AttributeError of \<open>data.get\<close> on data that is not a dict, for instance
  \<open>'list' object has no attribute 'get'\<close>.\<close>

definition no_attribute_get :: "pyval \<Rightarrow> pyexc" where
  "no_attribute_get data =
     PyExc (asc ''AttributeError'')
       ([39] @ py_type_name data @ [39] @ asc '' object has no attribute '' @ [39]
        @ asc ''get'' @ [39])"

text \<open>
  The \<open>try\<close> block of \<open>load\<close>. On data that is not a dict the first \<open>data.get\<close> raises
  AttributeError before any attribute is assigned.
\<close>

definition load_try :: "Config \<Rightarrow> disk \<Rightarrow> pyexc + Config" where
  "load_try self d =
     (case config_file d of
        Missing \<Rightarrow> Inr self
      | Unopenable e \<Rightarrow> Inl e
      | Unparsable e \<Rightarrow> Inl e
      | Document (PDict data) \<Rightarrow>
          Inr (self\<lparr>window_x := dict_get data (asc ''window_x'') PNone,
                    window_y := dict_get data (asc ''window_y'') PNone,
                    icon_size := dict_get data (asc ''icon_size'') (PInt 100),
                    muted_keyword := dict_get data (asc ''muted_keyword'') (PStr DEFAULT_MUTED),
                    unmuted_keyword := dict_get data (asc ''unmuted_keyword'') (PStr DEFAULT_UNMUTED),
                    check_interval := dict_get data (asc ''check_interval'') (PInt 200)\<rparr>)
      | Document data \<Rightarrow> Inl (no_attribute_get data))"

text \<open>\<open>Config.load\<close>: \<open>Inl\<close> would be an exception leaving the method.\<close>

definition Config_load :: "Config \<Rightarrow> disk \<Rightarrow> pyexc + (Config \<times> disk)" where
  "Config_load self d =
     (case load_try self d of
        Inl e \<Rightarrow> Inr (self, d\<lparr>printed := printed d @ [asc ''Failed to load config: '' @ str_of e]\<rparr>)
      | Inr self' \<Rightarrow> Inr (self', d))"

text \<open>\<open>Config()\<close>: the constructor, which ends with \<open>self.load()\<close>.\<close>

definition Config_init :: "disk \<Rightarrow> pyexc + (Config \<times> disk)" where
  "Config_init d = Config_load Config_defaults d"

text \<open>The dict that \<open>save\<close> hands to \<open>json.dump\<close>.\<close>

definition save_data :: "Config \<Rightarrow> pyval" where
  "save_data self =
     PDict [(asc ''window_x'', window_x self),
            (asc ''window_y'', window_y self),
            (asc ''icon_size'', icon_size self),
            (asc ''muted_keyword'', muted_keyword self),
            (asc ''unmuted_keyword'', unmuted_keyword self),
            (asc ''check_interval'', check_interval self)]"

text \<open>\<open>Config.save\<close>. What \<open>json.load\<close> reads back from a file that \<open>json.dump\<close> wrote is
  the dumped document.\<close>

definition Config_save :: "Config \<Rightarrow> disk \<Rightarrow> disk" where
  "Config_save self d =
     (case next_write d of
        Written \<Rightarrow> d\<lparr>config_file := Document (save_data self)\<rparr>
      | NotWritten e \<Rightarrow>
          d\<lparr>printed := printed d @ [asc ''Failed to save config: '' @ str_of e]\<rparr>
      | Torn e e' \<Rightarrow>
          d\<lparr>config_file := Unparsable e',
            printed := printed d @ [asc ''Failed to save config: '' @ str_of e]\<rparr>)"

section \<open>ZoomMuteMonitor: timer and keyword dialogs\<close>

text \<open>
  A timer of the run loop, and the run loop: the timers that are scheduled and valid (the
  ones that fire), how many timers were created so far, which numbers the next one, and
  the log of what was done to the timers: each operation with the timers that were
  scheduled right after it.
\<close>

record NSTimer =
  timer_id :: nat
  timeInterval :: real

datatype timer_event = Invalidated NSTimer | Scheduled NSTimer

record run_loop =
  scheduled :: "NSTimer list"
  created :: nat
  timer_log :: "(timer_event \<times> NSTimer list) list"

text \<open>\<open>timer.invalidate()\<close>: the timer never fires again.\<close>

definition invalidate :: "NSTimer \<Rightarrow> run_loop \<Rightarrow> run_loop" where
  "invalidate t rl =
     (let rest = filter (\<lambda>u. timer_id u \<noteq> timer_id t) (scheduled rl)
      in rl\<lparr>scheduled := rest, timer_log := timer_log rl @ [(Invalidated t, rest)]\<rparr>)"

text \<open>
  \<open>NSTimer.scheduledTimerWithTimeInterval_target_selector_userInfo_repeats_\<close> with
  \<open>repeats\<close> true and the selector \<open>updateStatus:\<close>. An interval that is not positive
  is replaced by 0.1 milliseconds.
\<close>

definition scheduledTimerWithTimeInterval :: "real \<Rightarrow> run_loop \<Rightarrow> NSTimer \<times> run_loop" where
  "scheduledTimerWithTimeInterval ti rl =
     (let t = \<lparr>timer_id = created rl, timeInterval = (if ti \<le> 0 then 1 / 10000 else ti)\<rparr>
      in (t, rl\<lparr>scheduled := scheduled rl @ [t], created := Suc (created rl),
                timer_log := timer_log rl @ [(Scheduled t, scheduled rl @ [t])]\<rparr>))"

record monitor =
  config :: Config
  timer :: "NSTimer option"
  last_error :: "ustr option"

record app =
  self :: monitor
  files :: disk
  main_loop :: run_loop

text \<open>The first two statements of \<open>setCheckInterval_\<close>; \<open>interval\<close> is \<open>sender.tag()\<close>.\<close>

definition store_interval :: "int \<Rightarrow> app \<Rightarrow> app" where
  "store_interval interval st =
     (let cfg = (config (self st))\<lparr>check_interval := PInt interval\<rparr>
      in st\<lparr>self := (self st)\<lparr>config := cfg\<rparr>, files := Config_save cfg (files st)\<rparr>)"

text \<open>\<open>if self.timer: self.timer.invalidate()\<close>.\<close>

definition invalidate_timer :: "app \<Rightarrow> app" where
  "invalidate_timer st =
     (case timer (self st) of
        Some t \<Rightarrow> st\<lparr>main_loop := invalidate t (main_loop st)\<rparr>
      | None \<Rightarrow> st)"

text \<open>\<open>self.timer = NSTimer.scheduledTimer...(interval / 1000.0, ...)\<close>.\<close>

definition schedule_timer :: "int \<Rightarrow> app \<Rightarrow> app" where
  "schedule_timer interval st =
     (case scheduledTimerWithTimeInterval (real_of_int interval / 1000) (main_loop st) of
        (t, rl) \<Rightarrow> st\<lparr>self := (self st)\<lparr>timer := Some t\<rparr>, main_loop := rl\<rparr>)"

text \<open>The method \<open>setCheckInterval_\<close> (a constant name cannot end in an underscore).\<close>

definition setCheckInterval :: "int \<Rightarrow> app \<Rightarrow> app" where
  "setCheckInterval interval st = schedule_timer interval (invalidate_timer (store_interval interval st))"

text \<open>
  What \<open>alert.runModal()\<close> leaves behind: the button that closed the dialog and the text in
  the input field. The first button is OK.
\<close>

definition NSAlertFirstButtonReturn :: int where
  "NSAlertFirstButtonReturn = 1000"

text \<open>The methods \<open>setMutedKeyword_\<close> and \<open>setUnmutedKeyword_\<close>.\<close>

definition setMutedKeyword :: "int \<Rightarrow> ustr \<Rightarrow> app \<Rightarrow> app" where
  "setMutedKeyword response new_keyword st =
     (if response = NSAlertFirstButtonReturn then
        (if new_keyword \<noteq> [] then
           (let cfg = (config (self st))\<lparr>muted_keyword := PStr new_keyword\<rparr>
            in st\<lparr>self := (self st)\<lparr>config := cfg\<rparr>, files := Config_save cfg (files st)\<rparr>)
         else st)
      else st)"

definition setUnmutedKeyword :: "int \<Rightarrow> ustr \<Rightarrow> app \<Rightarrow> app" where
  "setUnmutedKeyword response new_keyword st =
     (if response = NSAlertFirstButtonReturn then
        (if new_keyword \<noteq> [] then
           (let cfg = (config (self st))\<lparr>unmuted_keyword := PStr new_keyword\<rparr>
            in st\<lparr>self := (self st)\<lparr>config := cfg\<rparr>, files := Config_save cfg (files st)\<rparr>)
         else st)
      else st)"

section \<open>Notions used to state the properties\<close>

text \<open>A keyword with no double quote and no backslash: pasted between double quotes it is
  a string literal that denotes the keyword itself.\<close>

definition no_escape :: "ustr \<Rightarrow> bool" where
  "no_escape k = (34 \<notin> set k \<and> 92 \<notin> set k)"

text \<open>The process that the script talks to: the first of the two names that exists.\<close>

definition zoomProcName :: "system_events \<Rightarrow> ustr option" where
  "zoomProcName env =
     (if process_exists env (asc ''zoom.us'') then Some (asc ''zoom.us'')
      else if process_exists env (asc ''Zoom'') then Some (asc ''Zoom'')
      else None)"

text \<open>\<open>p in s\<close> of Python: the text \<open>p\<close> occurs in \<open>s\<close> as it is.\<close>

fun occurs_in :: "ustr \<Rightarrow> ustr \<Rightarrow> bool" where
  "occurs_in p [] = (p = [])"
| "occurs_in p (c # cs) = (startswith (c # cs) p \<or> occurs_in p cs)"

text \<open>The lines that the error detail gets for a list of item names.\<close>

definition item_lines :: "ustr list \<Rightarrow> ustr" where
  "item_lines items = concat (map (\<lambda>item. asc ''- '' @ item @ [10]) items)"

fun is_comparison :: "event \<Rightarrow> bool" where
  "is_comparison (Compared item keyword) = True"
| "is_comparison (Exists name) = False"
| "is_comparison (ReadMenu name) = False"

fun is_menu_read :: "event \<Rightarrow> bool" where
  "is_menu_read (ReadMenu name) = True"
| "is_menu_read (Exists name) = False"
| "is_menu_read (Compared item keyword) = False"

text \<open>
  The kinds of failure of a poll, and the kind that a stored error detail names, read off
  its leading words: the not-running sentence, \<open>AppleScript\<close> error, keyword not found,
  unknown status, unexpected error.
\<close>

datatype failure = TargetNotRunning | ScriptingLayer | KeywordNotFound | UnknownStatus | Unexpected

definition message_kind :: "ustr \<Rightarrow> failure option" where
  "message_kind m =
     (if m = asc ''Zoom'' @ [12364, 36215, 21205, 12375, 12390, 12356, 12414, 12379, 12435]
        then Some TargetNotRunning
      else if startswith m (asc ''AppleScript'' @ [12456, 12521, 12540] @ asc '':'')
        then Some ScriptingLayer
      else if startswith m [12461, 12540, 12527, 12540, 12489, 12364, 35211, 12388, 12363, 12426,
                            12414, 12379, 12435]
        then Some KeywordNotFound
      else if startswith m ([19981, 26126, 12394, 12473, 12486, 12540, 12479, 12473] @ asc '':'')
        then Some UnknownStatus
      else if startswith m ([20104, 26399, 12375, 12394, 12356, 12456, 12521, 12540] @ asc '':'')
        then Some Unexpected
      else None)"

text \<open>
  The kind of failure in what the scripting calls did, \<open>None\<close> when they handed back
  the status \<open>muted\<close> or \<open>unmuted\<close>: an exception is an unexpected failure; an error
  dictionary or a status \<open>error:\<close> is a failure of the scripting layer; the status
  \<open>not_running\<close> says that the target does not run; a status \<open>unknown:\<close> with the
  menu items, the status \<open>unknown\<close> and a missing result say that no keyword was found;
  any other status is not known.
\<close>

definition failure_of :: "script_outcome \<Rightarrow> failure option" where
  "failure_of outcome =
     (case outcome of
        Inl e \<Rightarrow> Some Unexpected
      | Inr (result, error) \<Rightarrow>
          (case error of
             Some info \<Rightarrow> Some ScriptingLayer
           | None \<Rightarrow>
               (case result of
                  None \<Rightarrow> Some KeywordNotFound
                | Some r \<Rightarrow>
                    (case stringValue r of
                       None \<Rightarrow> Some UnknownStatus
                     | Some status \<Rightarrow>
                         if status = asc ''muted'' \<or> status = asc ''unmuted'' then None
                         else if status = asc ''not_running'' then Some TargetNotRunning
                         else if startswith status (asc ''unknown:'') then Some KeywordNotFound
                         else if startswith status (asc ''error:'') then Some ScriptingLayer
                         else if status = asc ''unknown'' then Some KeywordNotFound
                         else Some UnknownStatus))))"

text \<open>
  The comparison of AppleScript on texts of ASCII letters under its default, which ignores
  case: \<open>"DUMPtruck" is equal to "dumptruck"\<close> is true. It serves in the example worlds.
\<close>

definition lowercase :: "nat \<Rightarrow> nat" where
  "lowercase c = (if 65 \<le> c \<and> c \<le> 90 then c + 32 else c)"

definition equal_ignoring_case :: "ustr \<Rightarrow> ustr \<Rightarrow> bool" where
  "equal_ignoring_case a b = (map lowercase a = map lowercase b)"

text \<open>A world in which Zoom runs as \<open>zoom.us\<close>, its Meeting menu holds the given items, and
  the script runs.\<close>

definition meeting_world :: "ustr list \<Rightarrow> system_events" where
  "meeting_world items =
     \<lparr>scripting = Executes,
      other_source = (None, Some (ErrorInfo (Some (asc ''syntax error'')) (asc ''{}''))),
      is_equal_to = equal_ignoring_case,
      process_exists = (\<lambda>name. name = asc ''zoom.us''),
      meeting_menu = (\<lambda>name. Inr items)\<rparr>"

text \<open>A world in which no Zoom process runs. A source text with a broken keyword literal
  does not compile there, and the call hands back the compiler's error dictionary.\<close>

definition no_zoom_world :: system_events where
  "no_zoom_world =
     \<lparr>scripting = Executes,
      other_source = (None, Some (ErrorInfo (Some (asc ''syntax error'')) (asc ''{}''))),
      is_equal_to = equal_ignoring_case,
      process_exists = (\<lambda>name. False),
      meeting_menu = (\<lambda>name. Inl (asc ''no such process''))\<rparr>"

text \<open>A world in which Zoom runs as \<open>zoom.us\<close> and reading its menu bar raises an
  error in the script.\<close>

definition menu_error_world :: system_events where
  "menu_error_world = (meeting_world [])\<lparr>meeting_menu := (\<lambda>name. Inl (asc ''no menu bar''))\<rparr>"

text \<open>A world in which the scripting calls raise a Python exception.\<close>

definition raising_world :: system_events where
  "raising_world = no_zoom_world\<lparr>scripting := Raises (PyExc (asc ''ValueError'') (asc ''bad source''))\<rparr>"

text \<open>The keys of the settings file.\<close>

definition config_keys :: "ustr list" where
  "config_keys = [asc ''window_x'', asc ''window_y'', asc ''icon_size'', asc ''muted_keyword'',
                  asc ''unmuted_keyword'', asc ''check_interval'']"

text \<open>Example settings, and a disk with no settings file on which writing works.\<close>

definition example_config :: Config where
  "example_config =
     \<lparr>window_x = PFloat 1200, window_y = PFloat (1465 / 2), icon_size = PInt 150,
      muted_keyword = PStr (asc ''Unmute Audio''), unmuted_keyword = PStr (asc ''Mute Audio''),
      check_interval = PInt 50\<rparr>"

definition example_disk :: disk where
  "example_disk = \<lparr>config_file = Missing, next_write = Written, printed = []\<rparr>"

text \<open>A disk whose settings file holds \<open>{"icon_size": 250, "theme": "dark"}\<close>, and one
  whose settings file is not JSON.\<close>

definition partial_disk :: disk where
  "partial_disk =
     \<lparr>config_file = Document (PDict [(asc ''icon_size'', PInt 250), (asc ''theme'', PStr (asc ''dark''))]),
      next_write = Written, printed = []\<rparr>"

definition corrupt_disk :: disk where
  "corrupt_disk =
     \<lparr>config_file = Unparsable (PyExc (asc ''JSONDecodeError'') (asc ''Expecting value: line 1 column 1 (char 0)'')),
      next_write = Written, printed = []\<rparr>"

text \<open>
  The timer discipline of the monitor: the run loop holds no timer but the one that
  \<open>self.timer\<close> refers to, and that one was created by the run loop.
\<close>

definition one_timer :: "app \<Rightarrow> bool" where
  "one_timer st =
     (case timer (self st) of
        None \<Rightarrow> scheduled (main_loop st) = []
      | Some t \<Rightarrow> scheduled (main_loop st) = [t] \<and> timer_id t < created (main_loop st))"

text \<open>An application state after \<open>startMonitoring\<close> with the default settings and no
  settings file: one timer of 200 milliseconds.\<close>

definition started_app :: app where
  "started_app =
     \<lparr>self = \<lparr>config = Config_defaults,
              timer = Some \<lparr>timer_id = 0, timeInterval = 200 / 1000\<rparr>,
              last_error = None\<rparr>,
      files = \<lparr>config_file = Missing, next_write = Written, printed = []\<rparr>,
      main_loop = \<lparr>scheduled = [\<lparr>timer_id = 0, timeInterval = 200 / 1000\<rparr>], created = 1,
                   timer_log = [(Scheduled \<lparr>timer_id = 0, timeInterval = 200 / 1000\<rparr>,
                                 [\<lparr>timer_id = 0, timeInterval = 200 / 1000\<rparr>])]\<rparr>\<rparr>"

section \<open>Auxiliary facts\<close>

lemma append_items_lines:
  "append_items d xs = d @ item_lines (filter (\<lambda>i. i \<noteq> []) xs)"
  by (induction xs arbitrary: d) (simp_all add: item_lines_def)

lemma item_list_concat: "item_list acc L = acc @ concat (map (\<lambda>i. i @ [124]) L)"
  by (induction L arbitrary: acc) simp_all

lemma split_joined:
  "\<forall>i\<in>set L. 124 \<notin> set i \<Longrightarrow> split 124 (concat (map (\<lambda>i. i @ [124]) L)) = L @ [[]]"
proof (induction L)
  case Nil
  show ?case by simp
next
  case (Cons a L)
  have a: "124 \<notin> set a" using Cons.prems by simp
  have "\<And>r. split 124 (a @ 124 # r) = a # split 124 r" using a
    by (induction a) (auto split: list.splits)
  then show ?case using Cons by simp
qed

lemma msg_nonempty:
  "msg_not_running \<noteq> []" "msg_keyword_not_found a b \<noteq> []" "msg_applescript_error m \<noteq> []"
  "msg_unknown_status s \<noteq> []" "msg_unexpected e \<noteq> []"
  by (simp_all add: msg_not_running_def msg_keyword_not_found_def msg_applescript_error_def
      msg_unknown_status_def msg_unexpected_def asc_def)

lemma interpret_status_slot:
  "interpret_status a b s = (v, le) \<Longrightarrow>
     (v = None \<longleftrightarrow> le \<noteq> None) \<and> (\<forall>m. le = Some m \<longrightarrow> m \<noteq> [])"
  by (auto simp: interpret_status_def append_items_lines msg_nonempty split: if_splits)

lemma checkMuteStatus_on_slot:
  "\<exists>v le. checkMuteStatus_on outcome A B = Inr (v, le)
     \<and> (le \<noteq> None \<longleftrightarrow> v = None)
     \<and> (v = None \<longrightarrow> (\<exists>m. le = Some m \<and> m \<noteq> []))"
proof (cases outcome)
  case (Inl e)
  then show ?thesis
    by (simp add: checkMuteStatus_on_def try_body_def msg_nonempty)
next
  case (Inr p)
  obtain result error where p: "p = (result, error)" by (cases p)
  show ?thesis
  proof (cases error)
    case (Some info)
    with Inr p show ?thesis
      by (simp add: checkMuteStatus_on_def try_body_def msg_nonempty)
  next
    case None
    define s where "s = (case result of None \<Rightarrow> asc ''unknown''
       | Some r \<Rightarrow> (case stringValue r of None \<Rightarrow> asc ''None'' | Some s \<Rightarrow> s))"
    obtain v le where i: "interpret_status A B s = (v, le)" by (cases "interpret_status A B s")
    have c: "checkMuteStatus_on outcome A B = Inr (v, le)"
      using Inr p None i by (simp add: checkMuteStatus_on_def try_body_def s_def)
    from interpret_status_slot [OF i] c show ?thesis by (cases v) auto
  qed
qed

lemmas world_defs = meeting_world_def no_zoom_world_def

lemmas check_defs = checkMuteStatus_def check_events_def executeAndReturnError_def run_script_def
  tell_process_def checkMuteStatus_on_def try_body_def interpret_status_def

lemmas text_defs = asc_def startswith_def as_escape_def equal_ignoring_case_def
  lowercase_def item_lines_def no_escape_def zoomProcName_def

lemma as_literal_no_escape: "no_escape k \<Longrightarrow> as_literal k = Some k"
  by (induction k rule: as_literal.induct) (auto simp: no_escape_def)

lemma repeat_with_found: "fst (repeat_with eq k L) = (\<exists>x\<in>set L. eq x k)"
  by (induction L) (auto split: prod.splits)

lemma repeat_with_none:
  "\<forall>x\<in>set L. \<not> eq x k \<Longrightarrow> repeat_with eq k L = (False, map (\<lambda>i. Compared i k) L)"
  by (induction L) auto

lemma repeat_with_first:
  "\<forall>y\<in>set xs. \<not> eq y k \<Longrightarrow> eq x k \<Longrightarrow>
     repeat_with eq k (xs @ x # ys) = (True, map (\<lambda>i. Compared i k) (xs @ [x]))"
  by (induction xs) auto

lemma run_script_located:
  "zoomProcName env = Some p \<Longrightarrow>
     fst (run_script env mk uk) = fst (tell_process env p mk uk) \<and>
     filter is_comparison (snd (run_script env mk uk)) = filter is_comparison (snd (tell_process env p mk uk))"
  by (auto simp: zoomProcName_def run_script_def split: if_splits prod.splits)

lemma run_script_absent:
  "zoomProcName env = None \<Longrightarrow>
     run_script env mk uk = (asc ''not_running'', [Exists (asc ''zoom.us''), Exists (asc ''Zoom'')])"
  by (auto simp: zoomProcName_def run_script_def split: if_splits)

lemma check_executes:
  "scripting env = Executes \<Longrightarrow> no_escape A \<Longrightarrow> no_escape B \<Longrightarrow>
     checkMuteStatus env A B = Inr (interpret_status A B (fst (run_script env A B))) \<and>
     check_events env A B = snd (run_script env A B)"
  by (simp add: checkMuteStatus_def check_events_def executeAndReturnError_def as_literal_no_escape
      checkMuteStatus_on_def try_body_def split: prod.splits)

lemma tell_process_muted:
  "meeting_menu env p = Inr L \<Longrightarrow> \<exists>x\<in>set L. is_equal_to env x mk \<Longrightarrow>
     fst (tell_process env p mk uk) = asc ''muted''"
  using repeat_with_found [of "is_equal_to env" mk L]
  by (auto simp: tell_process_def split: prod.splits)

lemma tell_process_unmuted:
  "meeting_menu env p = Inr L \<Longrightarrow> \<forall>x\<in>set L. \<not> is_equal_to env x mk \<Longrightarrow>
     \<exists>x\<in>set L. is_equal_to env x uk \<Longrightarrow>
     fst (tell_process env p mk uk) = asc ''unmuted''"
  using repeat_with_found [of "is_equal_to env" mk L] repeat_with_found [of "is_equal_to env" uk L]
  by (auto simp: tell_process_def split: prod.splits)

lemma tell_process_unknown:
  "meeting_menu env p = Inr L \<Longrightarrow> \<forall>x\<in>set L. \<not> is_equal_to env x mk \<Longrightarrow>
     \<forall>x\<in>set L. \<not> is_equal_to env x uk \<Longrightarrow>
     fst (tell_process env p mk uk) = asc ''unknown:'' @ concat (map (\<lambda>i. i @ [124]) L)"
  using repeat_with_found [of "is_equal_to env" mk L] repeat_with_found [of "is_equal_to env" uk L]
  by (auto simp: tell_process_def item_list_concat split: prod.splits)

lemma tell_process_first:
  "meeting_menu env p = Inr (xs @ x # ys) \<Longrightarrow> \<forall>y\<in>set xs. \<not> is_equal_to env y mk \<Longrightarrow>
     is_equal_to env x mk \<Longrightarrow>
     filter is_comparison (snd (tell_process env p mk uk)) = map (\<lambda>i. Compared i mk) (xs @ [x])"
  using repeat_with_first [of xs "is_equal_to env" mk x ys]
  by (simp add: tell_process_def filter_id_conv)

lemma interpret_muted: "interpret_status A B (asc ''muted'') = (Some True, None)"
  by (simp add: interpret_status_def)

lemma interpret_unmuted: "interpret_status A B (asc ''unmuted'') = (Some False, None)"
  by (simp add: interpret_status_def asc_def)

lemma interpret_not_running: "interpret_status A B (asc ''not_running'') = (None, Some msg_not_running)"
  by (simp add: interpret_status_def asc_def)

lemma interpret_unknown_items:
  "interpret_status A B (asc ''unknown:'' @ t) =
     (None, Some (append_items (msg_keyword_not_found A B @ msg_actual_items) (split 124 t)))"
  by (simp add: interpret_status_def asc_def startswith_def)

lemma interpret_error:
  "interpret_status A B (asc ''error:'' @ t) = (None, Some (msg_applescript_error t))"
  by (simp add: interpret_status_def asc_def startswith_def)

lemma message_kind_msg:
  "message_kind msg_not_running = Some TargetNotRunning"
  "message_kind (msg_applescript_error x) = Some ScriptingLayer"
  "message_kind (msg_keyword_not_found a b @ t) = Some KeywordNotFound"
  "message_kind (msg_keyword_not_found a b) = Some KeywordNotFound"
  "message_kind (msg_unknown_status s) = Some UnknownStatus"
  "message_kind (msg_unexpected e) = Some Unexpected"
  by (simp_all add: message_kind_def msg_not_running_def msg_applescript_error_def
      msg_keyword_not_found_def msg_unknown_status_def msg_unexpected_def asc_def startswith_def)

lemma interpret_status_kind:
  "interpret_status a b s = (v, le) \<Longrightarrow>
     (v = None \<longrightarrow> (\<exists>m. le = Some m
         \<and> message_kind m = failure_of (Inr (Some (NSAppleEventDescriptor (Some s)), None))
         \<and> message_kind m \<noteq> None))
     \<and> (v \<noteq> None \<longrightarrow> failure_of (Inr (Some (NSAppleEventDescriptor (Some s)), None)) = None)"
  by (auto simp: interpret_status_def failure_of_def append_items_lines message_kind_msg
      split: if_splits)

lemma checkMuteStatus_on_kind:
  "\<exists>v le. checkMuteStatus_on outcome A B = Inr (v, le)
     \<and> (v = None \<longrightarrow> (\<exists>m. le = Some m \<and> message_kind m = failure_of outcome
                                \<and> failure_of outcome \<noteq> None))
     \<and> (v \<noteq> None \<longrightarrow> failure_of outcome = None)"
proof (cases outcome)
  case (Inl e)
  then show ?thesis
    by (simp add: checkMuteStatus_on_def try_body_def message_kind_msg failure_of_def)
next
  case (Inr p)
  obtain result error where p: "p = (result, error)" by (cases p)
  show ?thesis
  proof (cases error)
    case (Some info)
    with Inr p show ?thesis
      by (simp add: checkMuteStatus_on_def try_body_def message_kind_msg failure_of_def)
  next
    case None
    show ?thesis
    proof (cases result)
      case rn: None
      with Inr p None show ?thesis
        by (simp add: checkMuteStatus_on_def try_body_def interpret_status_def asc_def
            startswith_def message_kind_msg failure_of_def)
    next
      case (Some r)
      show ?thesis
      proof (cases "stringValue r")
        case sn: None
        with Inr p None Some show ?thesis
          by (simp add: checkMuteStatus_on_def try_body_def interpret_status_def asc_def
              startswith_def message_kind_msg failure_of_def)
      next
        case (Some s)
        obtain v le where i: "interpret_status A B s = (v, le)" by (cases "interpret_status A B s")
        have r: "r = NSAppleEventDescriptor (Some s)" using Some by (cases r) simp
        have c: "checkMuteStatus_on outcome A B = Inr (v, le)"
          using Inr p None \<open>result = Some r\<close> Some i
          by (simp add: checkMuteStatus_on_def try_body_def)
        have o: "outcome = Inr (Some (NSAppleEventDescriptor (Some s)), None)"
          using Inr p None \<open>result = Some r\<close> r by simp
        from interpret_status_kind [OF i] c o show ?thesis by auto
      qed
    qed
  qed
qed


section \<open>C1: the muted scan comes first\<close>

text \<open>
  C1 says: for every pair of keywords A, B and every list L of retrieved item names, an item
  equal to A gives Muted, and otherwise an item equal to B gives Unmuted.

  C1 at a failing input: the muted keyword is \<open>\\\<close> (two backslashes), Zoom runs and its
  menu holds the one item \<open>\\\<close>. The keyword is pasted unescaped into the script as the
  literal \<open>"\\"\<close>, which denotes one backslash, so the item is not found and the poll ends
  Unknown with the keyword-not-found detail, although the item equals the keyword.
\<close>

theorem escaped_keyword_not_matched:
  "[92, 92] \<in> set [[92, 92 :: nat]] \<and>
   checkMuteStatus (meeting_world [[92, 92]]) [92, 92] (asc ''U'') =
     Inr (None, Some (msg_keyword_not_found [92, 92] (asc ''U'') @ msg_actual_items
                      @ item_lines [[92, 92]]))"
  by (simp add: world_defs check_defs text_defs)

text \<open>
  The code misses the claim a second way, by the comparison of the script, which ignores
  case where the dialogs promise an exact match: no item equals the muted keyword
  \<open>Unmute Audio\<close>, an item equals the unmuted keyword \<open>Mute Audio\<close>, and the poll ends
  Muted, because the item \<open>unmute audio\<close> is equal to the muted keyword for AppleScript.
\<close>

lemma case_ignored_by_is_equal_to:
  "asc ''Unmute Audio'' \<notin> set [asc ''unmute audio'', asc ''Mute Audio'']
   \<and> asc ''Mute Audio'' \<in> set [asc ''unmute audio'', asc ''Mute Audio'']
   \<and> checkMuteStatus (meeting_world [asc ''unmute audio'', asc ''Mute Audio''])
        (asc ''Unmute Audio'') (asc ''Mute Audio'') = Inr (Some True, None)"
  by (simp add: world_defs check_defs text_defs)

text \<open>
  What the code does when the script runs on keywords without double quote and backslash,
  Zoom runs under one of the two names and its menu gives the item names L:
  \<^item> an item equal to A, or equal to it for the comparison of the script, gives Muted,
    whatever B is and wherever it occurs;
  \<^item> otherwise (no item is equal to A for the script) an item that is equal to B for the
    script gives Unmuted;
  \<^item> the scan for A stops at the first match: the comparisons made are those of the items
    up to and including that one, with A, and none with B.
\<close>

lemma muted_scan_precedes:
  assumes "scripting env = Executes" and "no_escape A" and "no_escape B"
    and "zoomProcName env = Some p" and "meeting_menu env p = Inr L"
    and "\<forall>x. is_equal_to env x x"
  shows "((\<exists>x\<in>set L. x = A) \<longrightarrow> checkMuteStatus env A B = Inr (Some True, None))
       \<and> ((\<exists>x\<in>set L. is_equal_to env x A) \<longrightarrow> checkMuteStatus env A B = Inr (Some True, None))
       \<and> ((\<forall>x\<in>set L. \<not> is_equal_to env x A) \<and> (\<exists>x\<in>set L. is_equal_to env x B)
            \<longrightarrow> checkMuteStatus env A B = Inr (Some False, None))
       \<and> (L = xs @ x # ys \<and> (\<forall>y\<in>set xs. \<not> is_equal_to env y A) \<and> is_equal_to env x A
            \<longrightarrow> filter is_comparison (check_events env A B) = map (\<lambda>i. Compared i A) (xs @ [x]))"
proof -
  note ce = check_executes [OF assms(1-3)]
  note loc = run_script_located [OF assms(4), of A B]
  have m: "(\<exists>x\<in>set L. is_equal_to env x A) \<Longrightarrow> checkMuteStatus env A B = Inr (Some True, None)"
    using ce loc tell_process_muted [OF assms(5), of A B] by (simp add: interpret_muted)
  have e: "(\<exists>x\<in>set L. x = A) \<Longrightarrow> (\<exists>x\<in>set L. is_equal_to env x A)"
    using assms(6) by auto
  have u: "(\<forall>x\<in>set L. \<not> is_equal_to env x A) \<Longrightarrow> (\<exists>x\<in>set L. is_equal_to env x B)
      \<Longrightarrow> checkMuteStatus env A B = Inr (Some False, None)"
    using ce loc tell_process_unmuted [OF assms(5), of A B] by (simp add: interpret_unmuted)
  have f: "L = xs @ x # ys \<Longrightarrow> (\<forall>y\<in>set xs. \<not> is_equal_to env y A) \<Longrightarrow> is_equal_to env x A
      \<Longrightarrow> filter is_comparison (check_events env A B) = map (\<lambda>i. Compared i A) (xs @ [x])"
    using ce loc assms(5) tell_process_first [of env p _ _ _ A B] by simp
  show ?thesis using m e u f by blast
qed



text \<open>With a comparison that is the equality of texts, this is the claim as C1 states it.\<close>

lemma exact_comparison_precedence:
  assumes "scripting env = Executes" and "no_escape A" and "no_escape B"
    and "zoomProcName env = Some p" and "meeting_menu env p = Inr L"
    and "is_equal_to env = (=)"
  shows "(A \<in> set L \<longrightarrow> checkMuteStatus env A B = Inr (Some True, None))
       \<and> (A \<notin> set L \<and> B \<in> set L \<longrightarrow> checkMuteStatus env A B = Inr (Some False, None))"
proof -
  have r: "\<forall>x. is_equal_to env x x" using assms(6) by simp
  note m = muted_scan_precedes [OF assms(1-5) r, of "[]" A "[]"]
  have a: "A \<in> set L \<longrightarrow> checkMuteStatus env A B = Inr (Some True, None)"
    using m by blast
  have b: "A \<notin> set L \<and> B \<in> set L \<longrightarrow> checkMuteStatus env A B = Inr (Some False, None)"
    using m assms(6) by auto
  show ?thesis using a b by blast
qed

section \<open>C2: the item list in the error detail\<close>

text \<open>
  C2 says: for every list L that contains neither keyword, the poll ends Unknown and the
  error detail contains every item of L as it is, in order. It fails for an item with a
  vertical bar: the script joins the names with bars and the Python side splits at every
  bar, so the item \<open>a|b\<close> comes out as the two lines \<open>- a\<close> and \<open>- b\<close>, and the text
  \<open>a|b\<close> occurs nowhere in the detail.
\<close>

theorem item_with_bar_is_split:
  "asc ''M'' \<notin> set [asc ''a|b''] \<and> asc ''U'' \<notin> set [asc ''a|b'']
   \<and> checkMuteStatus (meeting_world [asc ''a|b'']) (asc ''M'') (asc ''U'') =
       Inr (None, Some (msg_keyword_not_found (asc ''M'') (asc ''U'') @ msg_actual_items
                        @ item_lines [asc ''a'', asc ''b'']))
   \<and> \<not> occurs_in (asc ''a|b'')
         (msg_keyword_not_found (asc ''M'') (asc ''U'') @ msg_actual_items
          @ item_lines [asc ''a'', asc ''b''])"
  by (simp add: world_defs check_defs text_defs msg_keyword_not_found_def msg_actual_items_def)

text \<open>
  C2 as amended: when the script runs on keywords without double quote and backslash, Zoom
  runs under one of the two names, its menu gives the item names L, no item is equal to
  either keyword for the comparison of the script, and no item contains a vertical bar,
  then the poll ends Unknown and the error detail is the keyword-not-found text followed by
  one line \<open>- item\<close> for every non-empty item of L, in the order of L.
\<close>

theorem unknown_lists_items:
  assumes "scripting env = Executes" and "no_escape A" and "no_escape B"
    and "zoomProcName env = Some p" and "meeting_menu env p = Inr L"
    and "\<forall>x\<in>set L. \<not> is_equal_to env x A \<and> \<not> is_equal_to env x B"
    and "\<forall>x\<in>set L. 124 \<notin> set x"
  shows "checkMuteStatus env A B =
           Inr (None, Some (msg_keyword_not_found A B @ msg_actual_items
                            @ item_lines (filter (\<lambda>i. i \<noteq> []) L)))"
proof -
  note ce = check_executes [OF assms(1-3)]
  note loc = run_script_located [OF assms(4), of A B]
  have "fst (run_script env A B) = asc ''unknown:'' @ concat (map (\<lambda>i. i @ [124]) L)"
    using loc tell_process_unknown [OF assms(5), of A B] assms(6) by simp
  then show ?thesis
    using ce by (simp add: interpret_unknown_items split_joined [OF assms(7)] append_items_lines)
qed

theorem unknown_lists_items_witness:
  "scripting (meeting_world [asc ''Record'', asc ''Leave'']) = Executes
   \<and> no_escape (asc ''MUTED'') \<and> no_escape (asc ''UNMUTED'')
   \<and> zoomProcName (meeting_world [asc ''Record'', asc ''Leave'']) = Some (asc ''zoom.us'')
   \<and> meeting_menu (meeting_world [asc ''Record'', asc ''Leave'']) (asc ''zoom.us'')
        = Inr [asc ''Record'', asc ''Leave'']
   \<and> \<not> is_equal_to (meeting_world [asc ''Record'', asc ''Leave'']) (asc ''Record'') (asc ''MUTED'')
   \<and> \<not> is_equal_to (meeting_world [asc ''Record'', asc ''Leave'']) (asc ''Record'') (asc ''UNMUTED'')
   \<and> \<not> is_equal_to (meeting_world [asc ''Record'', asc ''Leave'']) (asc ''Leave'') (asc ''MUTED'')
   \<and> \<not> is_equal_to (meeting_world [asc ''Record'', asc ''Leave'']) (asc ''Leave'') (asc ''UNMUTED'')
   \<and> 124 \<notin> set (asc ''Record'') \<and> 124 \<notin> set (asc ''Leave'')
   \<and> checkMuteStatus (meeting_world [asc ''Record'', asc ''Leave'']) (asc ''MUTED'') (asc ''UNMUTED'')
        = Inr (None, Some (msg_keyword_not_found (asc ''MUTED'') (asc ''UNMUTED'') @ msg_actual_items
                           @ item_lines [asc ''Record'', asc ''Leave'']))"
proof -
  let ?W = "meeting_world [asc ''Record'', asc ''Leave'']"
  have h1: "scripting ?W = Executes" by (simp add: world_defs)
  have h2: "no_escape (asc ''MUTED'')" by (simp add: text_defs)
  have h3: "no_escape (asc ''UNMUTED'')" by (simp add: text_defs)
  have h4: "zoomProcName ?W = Some (asc ''zoom.us'')" by (simp add: world_defs text_defs)
  have h5: "meeting_menu ?W (asc ''zoom.us'') = Inr [asc ''Record'', asc ''Leave'']"
    by (simp add: world_defs)
  have h6: "\<forall>x\<in>set [asc ''Record'', asc ''Leave''].
          \<not> is_equal_to ?W x (asc ''MUTED'') \<and> \<not> is_equal_to ?W x (asc ''UNMUTED'')"
    by (simp add: world_defs text_defs)
  have h7: "\<forall>x\<in>set [asc ''Record'', asc ''Leave'']. 124 \<notin> set x"
    by (simp add: text_defs)
  have ne: "filter (\<lambda>i. i \<noteq> []) [asc ''Record'', asc ''Leave''] = [asc ''Record'', asc ''Leave'']"
    by (simp add: text_defs)
  have r: "checkMuteStatus ?W (asc ''MUTED'') (asc ''UNMUTED'')
        = Inr (None, Some (msg_keyword_not_found (asc ''MUTED'') (asc ''UNMUTED'') @ msg_actual_items
                           @ item_lines [asc ''Record'', asc ''Leave'']))"
    using unknown_lists_items [OF h1 h2 h3 h4 h5 h6 h7] ne by simp
  have g: "\<not> is_equal_to ?W (asc ''Record'') (asc ''MUTED'')"
    "\<not> is_equal_to ?W (asc ''Record'') (asc ''UNMUTED'')"
    "\<not> is_equal_to ?W (asc ''Leave'') (asc ''MUTED'')"
    "\<not> is_equal_to ?W (asc ''Leave'') (asc ''UNMUTED'')"
    "124 \<notin> set (asc ''Record'')" "124 \<notin> set (asc ''Leave'')"
    using h6 h7 by simp_all
  show ?thesis using h1 h2 h3 h4 h5 g r by (intro conjI) assumption+
qed

section \<open>C3: no Zoom process\<close>

text \<open>
  C3 says: when neither process name exists, the poll ends Unknown with the not-running
  detail, and reads no menu. The code does so when the script runs as written:
\<close>

lemma absent_is_not_running:
  assumes "scripting env = Executes" and "as_literal A \<noteq> None" and "as_literal B \<noteq> None"
    and "\<not> process_exists env (asc ''zoom.us'')" and "\<not> process_exists env (asc ''Zoom'')"
  shows "checkMuteStatus env A B = Inr (None, Some msg_not_running)
       \<and> filter is_menu_read (check_events env A B) = []"
  using assms
  by (auto simp: checkMuteStatus_def check_events_def executeAndReturnError_def run_script_def
      checkMuteStatus_on_def try_body_def interpret_not_running)

text \<open>
  C3 at a failing input: the muted keyword is one double quote, typed into the keyword
  dialog, and no Zoom process runs. The keyword is pasted unescaped, the source text has
  the line \<open>set mutedKeyword to """\<close> and does not compile, the call hands back an error
  dictionary, and the poll stores the AppleScript error detail, not the not-running detail.
\<close>

theorem quote_in_keyword_hides_not_running:
  "\<not> process_exists no_zoom_world (asc ''zoom.us'') \<and> \<not> process_exists no_zoom_world (asc ''Zoom'')
   \<and> checkMuteStatus no_zoom_world [34] DEFAULT_UNMUTED
       = Inr (None, Some (msg_applescript_error (asc ''syntax error'')))
   \<and> msg_applescript_error (asc ''syntax error'') \<noteq> msg_not_running"
  by (simp add: world_defs check_defs text_defs msg_applescript_error_def msg_not_running_def)

section \<open>C4: no failure leaves checkMuteStatus\<close>

text \<open>
  C4: the method never hands an exception to its caller: in every world it returns. Every
  failure ends Unknown with the message of its kind:
  \<^item> the scripting calls raise an exception: the unexpected-error message, which holds the
    type name and the text of the exception;
  \<^item> the calls hand back an error dictionary: the AppleScript error message with the
    text of the dictionary;
  \<^item> the script runs and finds neither process: the not-running message;
  \<^item> the script runs, finds the process, and reading its menu raises an error: the
    AppleScript error message with the text of that error;
  \<^item> the script runs, reads the menu and no item is equal to a keyword: the
    keyword-not-found message with the items;
  \<^item> the keyword literals are broken: the method handles what the call hands back for
    that source text, and returns as well.
  The five kinds of message differ in their leading words, by which \<open>message_kind\<close>
  tells them apart. The same holds for the Python side alone, on every outcome of the
  scripting calls.
\<close>

theorem failures_contained:
  "(\<exists>v le. checkMuteStatus env A B = Inr (v, le))
   \<and> (\<exists>v le. checkMuteStatus_on outcome A B = Inr (v, le))
   \<and> (scripting env = Raises e \<longrightarrow> checkMuteStatus env A B = Inr (None, Some (msg_unexpected e)))
   \<and> (scripting env = Fails info \<longrightarrow> checkMuteStatus env A B =
         Inr (None, Some (msg_applescript_error
           (case NSAppleScriptErrorMessage info of Some m \<Rightarrow> m | None \<Rightarrow> str_error info))))
   \<and> (scripting env = Executes \<and> as_literal A = Some mk \<and> as_literal B = Some uk
        \<and> zoomProcName env = None
        \<longrightarrow> checkMuteStatus env A B = Inr (None, Some msg_not_running))
   \<and> (scripting env = Executes \<and> as_literal A = Some mk \<and> as_literal B = Some uk
        \<and> zoomProcName env = Some p \<and> meeting_menu env p = Inl errMsg
        \<longrightarrow> checkMuteStatus env A B = Inr (None, Some (msg_applescript_error errMsg)))
   \<and> (scripting env = Executes \<and> as_literal A = Some mk \<and> as_literal B = Some uk
        \<and> zoomProcName env = Some p \<and> meeting_menu env p = Inr L
        \<and> (\<forall>x\<in>set L. \<not> is_equal_to env x mk \<and> \<not> is_equal_to env x uk)
        \<longrightarrow> checkMuteStatus env A B =
              Inr (None, Some (append_items (msg_keyword_not_found A B @ msg_actual_items)
                                 (split 124 (item_list [] L)))))
   \<and> (scripting env = Executes \<and> (as_literal A = None \<or> as_literal B = None)
        \<longrightarrow> checkMuteStatus env A B = checkMuteStatus_on (Inr (other_source env)) A B)
   \<and> message_kind (msg_unexpected e) = Some Unexpected
   \<and> message_kind (msg_applescript_error errMsg) = Some ScriptingLayer
   \<and> message_kind msg_not_running = Some TargetNotRunning
   \<and> message_kind (append_items (msg_keyword_not_found A B @ msg_actual_items) items)
        = Some KeywordNotFound
   \<and> message_kind (msg_keyword_not_found A B) = Some KeywordNotFound
   \<and> message_kind (msg_unknown_status status) = Some UnknownStatus
   \<and> (\<exists>pre. msg_unexpected e = pre @ type_name e @ asc '': '' @ str_of e)
   \<and> checkMuteStatus_on (Inl e) A B = Inr (None, Some (msg_unexpected e))
   \<and> checkMuteStatus_on (Inr (result, Some info)) A B =
         Inr (None, Some (msg_applescript_error
           (case NSAppleScriptErrorMessage info of Some m \<Rightarrow> m | None \<Rightarrow> str_error info)))
   \<and> checkMuteStatus_on (Inr (Some (NSAppleEventDescriptor (Some (asc ''error:'' @ errMsg))), None)) A B =
         Inr (None, Some (msg_applescript_error errMsg))
   \<and> checkMuteStatus_on (Inr (Some (NSAppleEventDescriptor (Some (asc ''not_running''))), None)) A B =
         Inr (None, Some msg_not_running)
   \<and> checkMuteStatus_on (Inr (Some (NSAppleEventDescriptor (Some (asc ''unknown:'' @ itemList))), None)) A B =
         Inr (None, Some (append_items (msg_keyword_not_found A B @ msg_actual_items)
                            (split 124 itemList)))
   \<and> checkMuteStatus_on (Inr (None, None)) A B = Inr (None, Some (msg_keyword_not_found A B))"
proof -
  have r: "\<And>o'. \<exists>v le. checkMuteStatus_on o' A B = Inr (v, le)"
    using checkMuteStatus_on_slot by blast
  have a: "\<exists>v le. checkMuteStatus env A B = Inr (v, le)"
    unfolding checkMuteStatus_def by (rule r)
  have b: "\<exists>v le. checkMuteStatus_on outcome A B = Inr (v, le)" by (rule r)
  have c: "checkMuteStatus_on (Inl e) A B = Inr (None, Some (msg_unexpected e))"
    by (simp add: checkMuteStatus_on_def try_body_def)
  have d: "\<exists>pre. msg_unexpected e = pre @ type_name e @ asc '': '' @ str_of e"
    by (simp add: msg_unexpected_def)
  have f: "scripting env = Raises e \<longrightarrow> checkMuteStatus env A B = Inr (None, Some (msg_unexpected e))"
    by (simp add: checkMuteStatus_def executeAndReturnError_def checkMuteStatus_on_def try_body_def)
  have g: "checkMuteStatus_on (Inr (result, Some info)) A B =
         Inr (None, Some (msg_applescript_error
           (case NSAppleScriptErrorMessage info of Some m \<Rightarrow> m | None \<Rightarrow> str_error info)))"
    by (simp add: checkMuteStatus_on_def try_body_def)
  have h: "scripting env = Fails info \<longrightarrow> checkMuteStatus env A B =
         Inr (None, Some (msg_applescript_error
           (case NSAppleScriptErrorMessage info of Some m \<Rightarrow> m | None \<Rightarrow> str_error info)))"
    by (simp add: checkMuteStatus_def executeAndReturnError_def checkMuteStatus_on_def try_body_def)
  have i: "checkMuteStatus_on (Inr (Some (NSAppleEventDescriptor (Some (asc ''error:'' @ errMsg))), None)) A B =
         Inr (None, Some (msg_applescript_error errMsg))"
    by (simp add: checkMuteStatus_on_def try_body_def interpret_error)
  have j: "checkMuteStatus_on (Inr (Some (NSAppleEventDescriptor (Some (asc ''not_running''))), None)) A B =
         Inr (None, Some msg_not_running)"
    by (simp add: checkMuteStatus_on_def try_body_def interpret_not_running)
  have k: "checkMuteStatus_on (Inr (Some (NSAppleEventDescriptor (Some (asc ''unknown:'' @ itemList))), None)) A B =
         Inr (None, Some (append_items (msg_keyword_not_found A B @ msg_actual_items)
                            (split 124 itemList)))"
    by (simp add: checkMuteStatus_on_def try_body_def interpret_unknown_items)
  have l: "checkMuteStatus_on (Inr (None, None)) A B = Inr (None, Some (msg_keyword_not_found A B))"
    by (simp add: checkMuteStatus_on_def try_body_def interpret_status_def asc_def startswith_def)
  have ex: "scripting env = Executes \<Longrightarrow> as_literal A = Some mk \<Longrightarrow> as_literal B = Some uk
      \<Longrightarrow> checkMuteStatus env A B = Inr (interpret_status A B (fst (run_script env mk uk)))"
    by (simp add: checkMuteStatus_def executeAndReturnError_def checkMuteStatus_on_def
        try_body_def split: prod.splits)
  have w4: "scripting env = Executes \<and> as_literal A = Some mk \<and> as_literal B = Some uk
        \<and> zoomProcName env = None
        \<longrightarrow> checkMuteStatus env A B = Inr (None, Some msg_not_running)"
    using ex run_script_absent [of env mk uk] by (simp add: interpret_not_running)
  have w5: "scripting env = Executes \<and> as_literal A = Some mk \<and> as_literal B = Some uk
        \<and> zoomProcName env = Some p \<and> meeting_menu env p = Inl errMsg
        \<longrightarrow> checkMuteStatus env A B = Inr (None, Some (msg_applescript_error errMsg))"
  proof (intro impI, elim conjE)
    assume h: "scripting env = Executes" "as_literal A = Some mk" "as_literal B = Some uk"
      "zoomProcName env = Some p" "meeting_menu env p = Inl errMsg"
    have "fst (run_script env mk uk) = asc ''error:'' @ errMsg"
      using run_script_located [OF h(4), of mk uk] h(5) by (simp add: tell_process_def)
    then show "checkMuteStatus env A B = Inr (None, Some (msg_applescript_error errMsg))"
      using ex [OF h(1-3)] by (simp add: interpret_error)
  qed
  have w6: "scripting env = Executes \<and> as_literal A = Some mk \<and> as_literal B = Some uk
        \<and> zoomProcName env = Some p \<and> meeting_menu env p = Inr L
        \<and> (\<forall>x\<in>set L. \<not> is_equal_to env x mk \<and> \<not> is_equal_to env x uk)
        \<longrightarrow> checkMuteStatus env A B =
              Inr (None, Some (append_items (msg_keyword_not_found A B @ msg_actual_items)
                                 (split 124 (item_list [] L))))"
  proof (intro impI, elim conjE)
    assume h: "scripting env = Executes" "as_literal A = Some mk" "as_literal B = Some uk"
      "zoomProcName env = Some p" "meeting_menu env p = Inr L"
      "\<forall>x\<in>set L. \<not> is_equal_to env x mk \<and> \<not> is_equal_to env x uk"
    have "fst (run_script env mk uk) = asc ''unknown:'' @ item_list [] L"
      using run_script_located [OF h(4), of mk uk] tell_process_unknown [OF h(5), of mk uk] h(6)
      by (simp add: item_list_concat)
    then show "checkMuteStatus env A B =
              Inr (None, Some (append_items (msg_keyword_not_found A B @ msg_actual_items)
                                 (split 124 (item_list [] L))))"
      using ex [OF h(1-3)] by (simp add: interpret_unknown_items)
  qed
  have w7: "scripting env = Executes \<and> (as_literal A = None \<or> as_literal B = None)
        \<longrightarrow> checkMuteStatus env A B = checkMuteStatus_on (Inr (other_source env)) A B"
    by (auto simp: checkMuteStatus_def executeAndReturnError_def split: option.splits)
  have k1: "message_kind (msg_unexpected e) = Some Unexpected"
    and k2: "message_kind (msg_applescript_error errMsg) = Some ScriptingLayer"
    and k3: "message_kind msg_not_running = Some TargetNotRunning"
    and k4: "message_kind (append_items (msg_keyword_not_found A B @ msg_actual_items) items)
        = Some KeywordNotFound"
    and k5: "message_kind (msg_keyword_not_found A B) = Some KeywordNotFound"
    and k6: "message_kind (msg_unknown_status status) = Some UnknownStatus"
    by (simp_all add: message_kind_msg append_items_lines)
  show ?thesis
    using a b f h w4 w5 w6 w7 k1 k2 k3 k4 k5 k6 d c g i j k l by (intro conjI) assumption+
qed


theorem failures_contained_witness:
  "scripting raising_world = Raises (PyExc (asc ''ValueError'') (asc ''bad source''))
   \<and> checkMuteStatus raising_world DEFAULT_MUTED DEFAULT_UNMUTED =
       Inr (None, Some (msg_unexpected (PyExc (asc ''ValueError'') (asc ''bad source''))))
   \<and> scripting (no_zoom_world\<lparr>scripting := Fails (ErrorInfo None (asc ''{-1743}''))\<rparr>)
       = Fails (ErrorInfo None (asc ''{-1743}''))
   \<and> checkMuteStatus (no_zoom_world\<lparr>scripting := Fails (ErrorInfo None (asc ''{-1743}''))\<rparr>)
        DEFAULT_MUTED DEFAULT_UNMUTED
       = Inr (None, Some (msg_applescript_error (asc ''{-1743}'')))
   \<and> scripting no_zoom_world = Executes
   \<and> as_literal DEFAULT_MUTED = Some DEFAULT_MUTED \<and> as_literal DEFAULT_UNMUTED = Some DEFAULT_UNMUTED
   \<and> zoomProcName no_zoom_world = None
   \<and> checkMuteStatus no_zoom_world DEFAULT_MUTED DEFAULT_UNMUTED = Inr (None, Some msg_not_running)
   \<and> scripting menu_error_world = Executes
   \<and> zoomProcName menu_error_world = Some (asc ''zoom.us'')
   \<and> meeting_menu menu_error_world (asc ''zoom.us'') = Inl (asc ''no menu bar'')
   \<and> checkMuteStatus menu_error_world DEFAULT_MUTED DEFAULT_UNMUTED
       = Inr (None, Some (msg_applescript_error (asc ''no menu bar'')))
   \<and> message_kind (msg_applescript_error (asc ''no menu bar'')) = Some ScriptingLayer
   \<and> message_kind msg_not_running = Some TargetNotRunning"
proof -
  let ?F = "no_zoom_world\<lparr>scripting := Fails (ErrorInfo None (asc ''{-1743}''))\<rparr>"
  have h1: "scripting raising_world = Raises (PyExc (asc ''ValueError'') (asc ''bad source''))"
    by (simp add: raising_world_def)
  have h2: "scripting ?F = Fails (ErrorInfo None (asc ''{-1743}''))"
    by simp
  have h3: "scripting no_zoom_world = Executes" by (simp add: no_zoom_world_def)
  have la: "as_literal DEFAULT_MUTED = Some DEFAULT_MUTED"
    by (rule as_literal_no_escape) (simp add: no_escape_def DEFAULT_MUTED_def)
  have lb: "as_literal DEFAULT_UNMUTED = Some DEFAULT_UNMUTED"
    by (rule as_literal_no_escape) (simp add: no_escape_def DEFAULT_UNMUTED_def)
  have h4: "zoomProcName no_zoom_world = None" by (simp add: no_zoom_world_def zoomProcName_def)
  have h5: "scripting menu_error_world = Executes"
    by (simp add: menu_error_world_def meeting_world_def)
  have h6: "zoomProcName menu_error_world = Some (asc ''zoom.us'')"
    by (simp add: menu_error_world_def meeting_world_def zoomProcName_def)
  have h7: "meeting_menu menu_error_world (asc ''zoom.us'') = Inl (asc ''no menu bar'')"
    by (simp add: menu_error_world_def)
  note t1 = failures_contained [where env = raising_world
      and e = "PyExc (asc ''ValueError'') (asc ''bad source'')"
      and A = DEFAULT_MUTED and B = DEFAULT_UNMUTED]
  note t2 = failures_contained [where env = ?F
      and info = "ErrorInfo None (asc ''{-1743}'')"
      and A = DEFAULT_MUTED and B = DEFAULT_UNMUTED]
  note t3 = failures_contained [where env = no_zoom_world
      and A = DEFAULT_MUTED and B = DEFAULT_UNMUTED and mk = DEFAULT_MUTED and uk = DEFAULT_UNMUTED]
  note t4 = failures_contained [where env = menu_error_world
      and A = DEFAULT_MUTED and B = DEFAULT_UNMUTED and mk = DEFAULT_MUTED and uk = DEFAULT_UNMUTED
      and p = "asc ''zoom.us''" and errMsg = "asc ''no menu bar''"]
  have r1: "checkMuteStatus raising_world DEFAULT_MUTED DEFAULT_UNMUTED =
       Inr (None, Some (msg_unexpected (PyExc (asc ''ValueError'') (asc ''bad source''))))"
    using t1 h1 by blast
  have r2: "checkMuteStatus ?F DEFAULT_MUTED DEFAULT_UNMUTED
       = Inr (None, Some (msg_applescript_error (asc ''{-1743}'')))"
    using t2 h2 by simp
  have r3: "checkMuteStatus no_zoom_world DEFAULT_MUTED DEFAULT_UNMUTED = Inr (None, Some msg_not_running)"
    using t3 h3 la lb h4 by blast
  have r4: "checkMuteStatus menu_error_world DEFAULT_MUTED DEFAULT_UNMUTED
       = Inr (None, Some (msg_applescript_error (asc ''no menu bar'')))"
    using t4 h5 la lb h6 h7 by blast
  have k1: "message_kind (msg_applescript_error (asc ''no menu bar'')) = Some ScriptingLayer"
    using t4 by blast
  have k2: "message_kind msg_not_running = Some TargetNotRunning"
    using t4 by blast
  show ?thesis using h1 r1 h2 r2 h3 la lb h4 r3 h5 h6 h7 r4 k1 k2 by (intro conjI) assumption+
qed

section \<open>C5: the error slot and the returned value\<close>

text \<open>
  C5: on every return of the method, \<open>self.last_error\<close> holds a message exactly when the
  returned value is \<open>None\<close> (Unknown): after a return of \<open>True\<close> or \<open>False\<close> the slot
  is \<open>None\<close> and the scripting calls did not fail; after a return of \<open>None\<close> the slot
  holds a text that is not empty and that names, by its leading words, the kind of the
  failure that the scripting calls met. This holds for the poll in every world and for
  every outcome of the scripting calls.
\<close>

theorem last_error_iff_unknown:
  "(\<exists>v le. checkMuteStatus env A B = Inr (v, le)
      \<and> (le \<noteq> None \<longleftrightarrow> v = None)
      \<and> (v = Some True \<or> v = Some False \<longrightarrow>
            le = None \<and> failure_of (fst (executeAndReturnError env A B)) = None)
      \<and> (v = None \<longrightarrow> (\<exists>m k. le = Some m \<and> m \<noteq> [] \<and> message_kind m = Some k
            \<and> failure_of (fst (executeAndReturnError env A B)) = Some k)))
   \<and> (\<exists>v le. checkMuteStatus_on outcome A B = Inr (v, le)
      \<and> (le \<noteq> None \<longleftrightarrow> v = None)
      \<and> (v = Some True \<or> v = Some False \<longrightarrow> le = None \<and> failure_of outcome = None)
      \<and> (v = None \<longrightarrow> (\<exists>m k. le = Some m \<and> m \<noteq> [] \<and> message_kind m = Some k
            \<and> failure_of outcome = Some k)))"
proof -
  have r: "\<And>o'. \<exists>v le. checkMuteStatus_on o' A B = Inr (v, le)
      \<and> (le \<noteq> None \<longleftrightarrow> v = None)
      \<and> (v = Some True \<or> v = Some False \<longrightarrow> le = None \<and> failure_of o' = None)
      \<and> (v = None \<longrightarrow> (\<exists>m k. le = Some m \<and> m \<noteq> [] \<and> message_kind m = Some k
            \<and> failure_of o' = Some k))"
  proof -
    fix o'
    from checkMuteStatus_on_slot [of o' A B] obtain v le where s:
      "checkMuteStatus_on o' A B = Inr (v, le)" "le \<noteq> None \<longleftrightarrow> v = None"
      "v = None \<longrightarrow> (\<exists>m. le = Some m \<and> m \<noteq> [])" by blast
    from checkMuteStatus_on_kind [of o' A B] s(1) have k:
      "v = None \<longrightarrow> (\<exists>m. le = Some m \<and> message_kind m = failure_of o' \<and> failure_of o' \<noteq> None)"
      "v \<noteq> None \<longrightarrow> failure_of o' = None" by auto
    show "\<exists>v le. checkMuteStatus_on o' A B = Inr (v, le)
      \<and> (le \<noteq> None \<longleftrightarrow> v = None)
      \<and> (v = Some True \<or> v = Some False \<longrightarrow> le = None \<and> failure_of o' = None)
      \<and> (v = None \<longrightarrow> (\<exists>m k. le = Some m \<and> m \<noteq> [] \<and> message_kind m = Some k
            \<and> failure_of o' = Some k))"
      using s k by (intro exI [of _ v] exI [of _ le]) auto
  qed
  show ?thesis unfolding checkMuteStatus_def using r by blast
qed

theorem last_error_iff_unknown_witness:
  "checkMuteStatus (meeting_world [asc ''MUTED'']) (asc ''MUTED'') (asc ''UNMUTED'') = Inr (Some True, None)
   \<and> failure_of (fst (executeAndReturnError (meeting_world [asc ''MUTED'']) (asc ''MUTED'') (asc ''UNMUTED''))) = None
   \<and> checkMuteStatus no_zoom_world (asc ''MUTED'') (asc ''UNMUTED'') = Inr (None, Some msg_not_running)
   \<and> msg_not_running \<noteq> []
   \<and> message_kind msg_not_running = Some TargetNotRunning
   \<and> failure_of (fst (executeAndReturnError no_zoom_world (asc ''MUTED'') (asc ''UNMUTED'')))
       = Some TargetNotRunning"
proof -
  have a: "checkMuteStatus (meeting_world [asc ''MUTED'']) (asc ''MUTED'') (asc ''UNMUTED'')
       = Inr (Some True, None)"
    by (simp add: world_defs check_defs text_defs)
  have a': "failure_of (fst (executeAndReturnError (meeting_world [asc ''MUTED'']) (asc ''MUTED'') (asc ''UNMUTED''))) = None"
    using last_error_iff_unknown [of "meeting_world [asc ''MUTED'']" "asc ''MUTED''" "asc ''UNMUTED''"] a
    by auto
  have b: "checkMuteStatus no_zoom_world (asc ''MUTED'') (asc ''UNMUTED'')
       = Inr (None, Some msg_not_running)"
    by (simp add: world_defs check_defs text_defs)
  from last_error_iff_unknown [of no_zoom_world "asc ''MUTED''" "asc ''UNMUTED''"] b
  obtain k where c: "msg_not_running \<noteq> []" and k: "message_kind msg_not_running = Some k"
    "failure_of (fst (executeAndReturnError no_zoom_world (asc ''MUTED'') (asc ''UNMUTED''))) = Some k"
    by auto
  have d: "message_kind msg_not_running = Some TargetNotRunning" by (rule message_kind_msg)
  with k have e: "failure_of (fst (executeAndReturnError no_zoom_world (asc ''MUTED'') (asc ''UNMUTED'')))
       = Some TargetNotRunning" by simp
  show ?thesis using a a' b c d e by (intro conjI) assumption+
qed

section \<open>C10: every status text is classified\<close>

text \<open>
  C10: for every text that the script can hand back as its result, the method returns one of
  \<open>True\<close>, \<open>False\<close> and \<open>None\<close>: \<open>muted\<close> gives \<open>True\<close>, \<open>unmuted\<close> gives
  \<open>False\<close>, every other text gives \<open>None\<close>. A text that is none of \<open>muted\<close>,
  \<open>unmuted\<close>, \<open>not_running\<close>, \<open>unknown\<close> and starts with neither \<open>unknown:\<close> nor
  \<open>error:\<close> gives \<open>None\<close> with the unknown-status message, which ends with the text
  itself.
\<close>

theorem status_classification_total:
  "(status = asc ''muted'' \<longrightarrow>
      checkMuteStatus_on (Inr (Some (NSAppleEventDescriptor (Some status)), None)) A B
        = Inr (Some True, None))
   \<and> (status = asc ''unmuted'' \<longrightarrow>
      checkMuteStatus_on (Inr (Some (NSAppleEventDescriptor (Some status)), None)) A B
        = Inr (Some False, None))
   \<and> (status \<noteq> asc ''muted'' \<and> status \<noteq> asc ''unmuted'' \<longrightarrow>
      (\<exists>m. checkMuteStatus_on (Inr (Some (NSAppleEventDescriptor (Some status)), None)) A B
        = Inr (None, Some m)))
   \<and> (status \<noteq> asc ''muted'' \<and> status \<noteq> asc ''unmuted'' \<and> status \<noteq> asc ''not_running''
        \<and> status \<noteq> asc ''unknown'' \<and> \<not> startswith status (asc ''unknown:'')
        \<and> \<not> startswith status (asc ''error:'')
      \<longrightarrow> checkMuteStatus_on (Inr (Some (NSAppleEventDescriptor (Some status)), None)) A B
            = Inr (None, Some (msg_unknown_status status))
          \<and> (\<exists>pre. msg_unknown_status status = pre @ status))"
  by (simp add: checkMuteStatus_on_def try_body_def interpret_status_def msg_unknown_status_def asc_def)

theorem status_classification_total_witness:
  "asc ''paused'' \<noteq> asc ''muted'' \<and> asc ''paused'' \<noteq> asc ''unmuted''
   \<and> asc ''paused'' \<noteq> asc ''not_running'' \<and> asc ''paused'' \<noteq> asc ''unknown''
   \<and> \<not> startswith (asc ''paused'') (asc ''unknown:'') \<and> \<not> startswith (asc ''paused'') (asc ''error:'')
   \<and> checkMuteStatus_on (Inr (Some (NSAppleEventDescriptor (Some (asc ''paused''))), None))
        DEFAULT_MUTED DEFAULT_UNMUTED
      = Inr (None, Some (msg_unknown_status (asc ''paused'')))"
  using status_classification_total [of "asc ''paused''" DEFAULT_MUTED DEFAULT_UNMUTED]
  by (simp add: asc_def startswith_def)

section \<open>The settings file\<close>

lemma dict_get_save_data:
  "dict_get [(asc ''window_x'', a), (asc ''window_y'', b), (asc ''icon_size'', c),
             (asc ''muted_keyword'', d), (asc ''unmuted_keyword'', e), (asc ''check_interval'', f)]
     (asc ''window_x'') x = a"
  "dict_get [(asc ''window_x'', a), (asc ''window_y'', b), (asc ''icon_size'', c),
             (asc ''muted_keyword'', d), (asc ''unmuted_keyword'', e), (asc ''check_interval'', f)]
     (asc ''window_y'') x = b"
  "dict_get [(asc ''window_x'', a), (asc ''window_y'', b), (asc ''icon_size'', c),
             (asc ''muted_keyword'', d), (asc ''unmuted_keyword'', e), (asc ''check_interval'', f)]
     (asc ''icon_size'') x = c"
  "dict_get [(asc ''window_x'', a), (asc ''window_y'', b), (asc ''icon_size'', c),
             (asc ''muted_keyword'', d), (asc ''unmuted_keyword'', e), (asc ''check_interval'', f)]
     (asc ''muted_keyword'') x = d"
  "dict_get [(asc ''window_x'', a), (asc ''window_y'', b), (asc ''icon_size'', c),
             (asc ''muted_keyword'', d), (asc ''unmuted_keyword'', e), (asc ''check_interval'', f)]
     (asc ''unmuted_keyword'') x = e"
  "dict_get [(asc ''window_x'', a), (asc ''window_y'', b), (asc ''icon_size'', c),
             (asc ''muted_keyword'', d), (asc ''unmuted_keyword'', e), (asc ''check_interval'', f)]
     (asc ''check_interval'') x = f"
  by (simp_all add: dict_get_def asc_def)

lemma load_saved:
  "next_write d = Written \<Longrightarrow> load_try self0 (Config_save c d) = Inr c"
  by (simp add: load_try_def Config_save_def save_data_def dict_get_save_data)

section \<open>C6: saving and loading the settings\<close>

text \<open>
  C6: for every settings record (the window position, the icon size, the two keywords, the
  check interval, each a value that JSON can hold), when \<open>save\<close> writes the file, a
  \<open>load\<close> that follows, into the same object, into any other one or in the constructor
  of a new one, gives back the saved values, field by field; nothing is printed on the way.
\<close>

theorem save_load_roundtrip:
  assumes "next_write d = Written"
  shows "Config_load self0 (Config_save c d) = Inr (c, Config_save c d)
       \<and> Config_init (Config_save c d) = Inr (c, Config_save c d)
       \<and> printed (Config_save c d) = printed d"
  using assms load_saved [OF assms, of self0 c] load_saved [OF assms, of Config_defaults c]
  by (simp add: Config_load_def Config_init_def Config_save_def)

theorem save_load_roundtrip_witness:
  "next_write example_disk = Written
   \<and> Config_init (Config_save example_config example_disk)
     = Inr (example_config, example_disk\<lparr>config_file := Document (save_data example_config)\<rparr>)
   \<and> muted_keyword example_config = PStr (asc ''Unmute Audio'')"
proof -
  have h: "next_write example_disk = Written" by (simp add: example_disk_def)
  have s: "Config_save example_config example_disk
      = example_disk\<lparr>config_file := Document (save_data example_config)\<rparr>"
    by (simp add: Config_save_def example_disk_def)
  have r: "Config_init (Config_save example_config example_disk)
     = Inr (example_config, example_disk\<lparr>config_file := Document (save_data example_config)\<rparr>)"
    using save_load_roundtrip [OF h, of Config_defaults example_config] s by simp
  have k: "muted_keyword example_config = PStr (asc ''Unmute Audio'')"
    by (simp add: example_config_def)
  show ?thesis using h r k by (intro conjI) assumption+
qed

section \<open>C7: loading never fails\<close>

text \<open>
  C7: \<open>load\<close> returns on every settings file and never raises. With no file the fields
  stay as they are. With a file that cannot be opened or parsed, or whose document is not an
  object, the fields stay as they are and one line \<open>Failed to load config: ...\<close> is
  printed. With an object, every one of the six fields is the value under its key and, when
  the key is missing, its default: no window position, icon size 100, the two default
  keywords, check interval 200; nothing else of the object is looked at. In the
  constructor, the only caller, the fields that stay as they are hold the defaults.
\<close>

theorem load_total:
  "(\<exists>self' d'. Config_load self0 d = Inr (self', d'))
   \<and> (config_file d = Missing \<longrightarrow> Config_load self0 d = Inr (self0, d)
         \<and> Config_init d = Inr (Config_defaults, d))
   \<and> (config_file d = Unopenable e \<or> config_file d = Unparsable e \<longrightarrow>
         Config_load self0 d =
           Inr (self0, d\<lparr>printed := printed d @ [asc ''Failed to load config: '' @ str_of e]\<rparr>)
         \<and> Config_init d =
           Inr (Config_defaults, d\<lparr>printed := printed d @ [asc ''Failed to load config: '' @ str_of e]\<rparr>))
   \<and> (config_file d = Document data \<and> (\<forall>kvs. data \<noteq> PDict kvs) \<longrightarrow>
         Config_load self0 d =
           Inr (self0, d\<lparr>printed := printed d @
                  [asc ''Failed to load config: '' @ str_of (no_attribute_get data)]\<rparr>)
         \<and> Config_init d =
           Inr (Config_defaults, d\<lparr>printed := printed d @
                  [asc ''Failed to load config: '' @ str_of (no_attribute_get data)]\<rparr>))
   \<and> (config_file d = Document (PDict kvs) \<longrightarrow>
         Config_load self0 d =
           Inr (\<lparr>window_x = dict_get kvs (asc ''window_x'') PNone,
                 window_y = dict_get kvs (asc ''window_y'') PNone,
                 icon_size = dict_get kvs (asc ''icon_size'') (PInt 100),
                 muted_keyword = dict_get kvs (asc ''muted_keyword'') (PStr DEFAULT_MUTED),
                 unmuted_keyword = dict_get kvs (asc ''unmuted_keyword'') (PStr DEFAULT_UNMUTED),
                 check_interval = dict_get kvs (asc ''check_interval'') (PInt 200)\<rparr>, d))
   \<and> (config_file d = Document (PDict []) \<longrightarrow> Config_load self0 d = Inr (Config_defaults, d))
   \<and> (key \<notin> set config_keys \<longrightarrow>
         map_sum id fst (Config_load self0 (d\<lparr>config_file := Document (PDict ((key, v) # kvs))\<rparr>))
           = map_sum id fst (Config_load self0 (d\<lparr>config_file := Document (PDict kvs)\<rparr>)))
   \<and> (map_of kvs key = None \<longrightarrow> dict_get kvs key dflt = dflt)
   \<and> (map_of kvs key = Some v \<longrightarrow> dict_get kvs key dflt = v)"
proof -
  have a: "\<exists>self' d'. Config_load self0 d = Inr (self', d')"
    by (cases "load_try self0 d") (simp_all add: Config_load_def)
  have b: "config_file d = Missing \<longrightarrow> Config_load self0 d = Inr (self0, d)
         \<and> Config_init d = Inr (Config_defaults, d)"
    by (simp add: Config_load_def Config_init_def load_try_def)
  have c: "config_file d = Unopenable e \<or> config_file d = Unparsable e \<longrightarrow>
         Config_load self0 d =
           Inr (self0, d\<lparr>printed := printed d @ [asc ''Failed to load config: '' @ str_of e]\<rparr>)
         \<and> Config_init d =
           Inr (Config_defaults, d\<lparr>printed := printed d @ [asc ''Failed to load config: '' @ str_of e]\<rparr>)"
    by (auto simp: Config_load_def Config_init_def load_try_def)
  have f: "config_file d = Document data \<and> (\<forall>kvs. data \<noteq> PDict kvs) \<longrightarrow>
         Config_load self0 d =
           Inr (self0, d\<lparr>printed := printed d @
                  [asc ''Failed to load config: '' @ str_of (no_attribute_get data)]\<rparr>)
         \<and> Config_init d =
           Inr (Config_defaults, d\<lparr>printed := printed d @
                  [asc ''Failed to load config: '' @ str_of (no_attribute_get data)]\<rparr>)"
    by (cases data) (simp_all add: Config_load_def Config_init_def load_try_def)
  have g: "config_file d = Document (PDict kvs) \<longrightarrow>
         Config_load self0 d =
           Inr (\<lparr>window_x = dict_get kvs (asc ''window_x'') PNone,
                 window_y = dict_get kvs (asc ''window_y'') PNone,
                 icon_size = dict_get kvs (asc ''icon_size'') (PInt 100),
                 muted_keyword = dict_get kvs (asc ''muted_keyword'') (PStr DEFAULT_MUTED),
                 unmuted_keyword = dict_get kvs (asc ''unmuted_keyword'') (PStr DEFAULT_UNMUTED),
                 check_interval = dict_get kvs (asc ''check_interval'') (PInt 200)\<rparr>, d)"
    by (simp add: Config_load_def load_try_def)
  have h: "config_file d = Document (PDict []) \<longrightarrow> Config_load self0 d = Inr (Config_defaults, d)"
    by (simp add: Config_load_def load_try_def dict_get_def Config_defaults_def)
  have u: "key \<notin> set config_keys \<longrightarrow>
         map_sum id fst (Config_load self0 (d\<lparr>config_file := Document (PDict ((key, v) # kvs))\<rparr>))
           = map_sum id fst (Config_load self0 (d\<lparr>config_file := Document (PDict kvs)\<rparr>))"
    by (auto simp: Config_load_def load_try_def dict_get_def config_keys_def)
  have i: "map_of kvs key = None \<longrightarrow> dict_get kvs key dflt = dflt"
    by (simp add: dict_get_def)
  have j: "map_of kvs key = Some v \<longrightarrow> dict_get kvs key dflt = v"
    by (simp add: dict_get_def)
  show ?thesis using a b c f g h u i j by (intro conjI) assumption+
qed

theorem load_total_witness:
  "config_file partial_disk =
     Document (PDict [(asc ''icon_size'', PInt 250), (asc ''theme'', PStr (asc ''dark''))])
   \<and> Config_init partial_disk = Inr (Config_defaults\<lparr>icon_size := PInt 250\<rparr>, partial_disk)
   \<and> config_file corrupt_disk =
       Unparsable (PyExc (asc ''JSONDecodeError'') (asc ''Expecting value: line 1 column 1 (char 0)''))
   \<and> Config_init corrupt_disk =
       Inr (Config_defaults,
            corrupt_disk\<lparr>printed := [asc ''Failed to load config: Expecting value: line 1 column 1 (char 0)'']\<rparr>)"
proof -
  let ?kvs = "[(asc ''icon_size'', PInt 250), (asc ''theme'', PStr (asc ''dark''))]"
  let ?e = "PyExc (asc ''JSONDecodeError'') (asc ''Expecting value: line 1 column 1 (char 0)'')"
  have h1: "config_file partial_disk = Document (PDict ?kvs)" by (simp add: partial_disk_def)
  have h2: "config_file corrupt_disk = Unparsable ?e" by (simp add: corrupt_disk_def)
  note t1 = load_total [where d = partial_disk and kvs = ?kvs and ?self0.0 = Config_defaults]
  note t2 = load_total [where d = corrupt_disk and e = ?e and ?self0.0 = Config_defaults]
  have g: "dict_get ?kvs (asc ''window_x'') PNone = PNone"
    "dict_get ?kvs (asc ''window_y'') PNone = PNone"
    "dict_get ?kvs (asc ''icon_size'') (PInt 100) = PInt 250"
    "dict_get ?kvs (asc ''muted_keyword'') (PStr DEFAULT_MUTED) = PStr DEFAULT_MUTED"
    "dict_get ?kvs (asc ''unmuted_keyword'') (PStr DEFAULT_UNMUTED) = PStr DEFAULT_UNMUTED"
    "dict_get ?kvs (asc ''check_interval'') (PInt 200) = PInt 200"
    by (simp_all add: dict_get_def asc_def)
  have "Config_load Config_defaults partial_disk = Inr (Config_defaults\<lparr>icon_size := PInt 250\<rparr>, partial_disk)"
    using t1 h1 g by (simp add: Config_defaults_def)
  then have r1: "Config_init partial_disk = Inr (Config_defaults\<lparr>icon_size := PInt 250\<rparr>, partial_disk)"
    by (simp add: Config_init_def)
  have "Config_init corrupt_disk =
       Inr (Config_defaults,
            corrupt_disk\<lparr>printed := printed corrupt_disk @ [asc ''Failed to load config: '' @ str_of ?e]\<rparr>)"
    using t2 h2 by simp
  then have r2: "Config_init corrupt_disk =
       Inr (Config_defaults,
            corrupt_disk\<lparr>printed := [asc ''Failed to load config: Expecting value: line 1 column 1 (char 0)'']\<rparr>)"
    by (simp add: corrupt_disk_def asc_def)
  show ?thesis using h1 r1 h2 r2 by (intro conjI) assumption+
qed

section \<open>C8: changing the check interval\<close>

text \<open>
  C8: in a state where the run loop holds no timer but the one of the monitor, a change of
  the interval to a positive number Y of milliseconds leaves exactly one timer scheduled:
  a new one, referred to by \<open>self.timer\<close>, with the interval Y / 1000 seconds. The log of
  the run loop grows by two entries, in this order: the old timer is invalidated, and no
  timer is scheduled after that; then the new timer is scheduled, and it is the only one.
  (With no old timer, the log grows by the second entry alone.) So the old timer is off the
  run loop before the new one is on it, at no point of the change are two timers
  scheduled, and after the change the old timer is not scheduled and cannot fire. The
  discipline holds again after the change, and the change goes through whether or not the
  settings file could be written.
\<close>

theorem interval_change_one_timer:
  assumes "one_timer st" and "0 < Y"
  shows "(\<exists>t. scheduled (main_loop (setCheckInterval Y st)) = [t]
             \<and> timer (self (setCheckInterval Y st)) = Some t
             \<and> timeInterval t = real_of_int Y / 1000
             \<and> (\<forall>old. timer (self st) = Some old \<longrightarrow>
                    timer_id t \<noteq> timer_id old
                    \<and> old \<notin> set (scheduled (main_loop (setCheckInterval Y st)))
                    \<and> timer_log (main_loop (setCheckInterval Y st)) =
                        timer_log (main_loop st) @ [(Invalidated old, []), (Scheduled t, [t])])
             \<and> (timer (self st) = None \<longrightarrow>
                    timer_log (main_loop (setCheckInterval Y st)) =
                        timer_log (main_loop st) @ [(Scheduled t, [t])]))
       \<and> (\<forall>entry \<in> set (drop (length (timer_log (main_loop st)))
                           (timer_log (main_loop (setCheckInterval Y st)))).
             length (snd entry) \<le> 1)
       \<and> one_timer (setCheckInterval Y st)
       \<and> check_interval (config (self (setCheckInterval Y st))) = PInt Y"
proof (cases "timer (self st)")
  case None
  with assms show ?thesis
    by (simp add: one_timer_def setCheckInterval_def schedule_timer_def invalidate_timer_def
        store_interval_def scheduledTimerWithTimeInterval_def Let_def)
next
  case (Some old)
  with assms show ?thesis
    by (auto simp: one_timer_def setCheckInterval_def schedule_timer_def invalidate_timer_def
        store_interval_def scheduledTimerWithTimeInterval_def invalidate_def Let_def)
qed

theorem interval_change_one_timer_witness:
  "one_timer started_app \<and> (0 :: int) < 50
   \<and> scheduled (main_loop (setCheckInterval 50 started_app)) = [\<lparr>timer_id = 1, timeInterval = 50 / 1000\<rparr>]
   \<and> timer (self (setCheckInterval 50 started_app)) = Some \<lparr>timer_id = 1, timeInterval = 50 / 1000\<rparr>
   \<and> timer_log (main_loop (setCheckInterval 50 started_app)) =
        [(Scheduled \<lparr>timer_id = 0, timeInterval = 200 / 1000\<rparr>, [\<lparr>timer_id = 0, timeInterval = 200 / 1000\<rparr>]),
         (Invalidated \<lparr>timer_id = 0, timeInterval = 200 / 1000\<rparr>, []),
         (Scheduled \<lparr>timer_id = 1, timeInterval = 50 / 1000\<rparr>, [\<lparr>timer_id = 1, timeInterval = 50 / 1000\<rparr>])]"
proof -
  have h: "one_timer started_app" by (simp add: one_timer_def started_app_def)
  have p: "(0 :: int) < 50" by simp
  have o: "timer (self started_app) = Some \<lparr>timer_id = 0, timeInterval = 200 / 1000\<rparr>"
    by (simp add: started_app_def)
  have l0: "timer_log (main_loop started_app) =
      [(Scheduled \<lparr>timer_id = 0, timeInterval = 200 / 1000\<rparr>, [\<lparr>timer_id = 0, timeInterval = 200 / 1000\<rparr>])]"
    by (simp add: started_app_def)
  from interval_change_one_timer [OF h p] obtain t where t:
    "scheduled (main_loop (setCheckInterval 50 started_app)) = [t]"
    "timer (self (setCheckInterval 50 started_app)) = Some t"
    "timeInterval t = real_of_int 50 / 1000"
    "\<forall>old. timer (self started_app) = Some old \<longrightarrow>
        timer_id t \<noteq> timer_id old
        \<and> old \<notin> set (scheduled (main_loop (setCheckInterval 50 started_app)))
        \<and> timer_log (main_loop (setCheckInterval 50 started_app)) =
            timer_log (main_loop started_app) @ [(Invalidated old, []), (Scheduled t, [t])]"
    by blast
  have a: "scheduled (main_loop (setCheckInterval 50 started_app)) = [\<lparr>timer_id = 1, timeInterval = 50 / 1000\<rparr>]"
    by (simp add: started_app_def setCheckInterval_def schedule_timer_def invalidate_timer_def
        store_interval_def scheduledTimerWithTimeInterval_def invalidate_def Let_def)
  have te: "t = \<lparr>timer_id = 1, timeInterval = 50 / 1000\<rparr>" using t(1) a by simp
  have b: "timer (self (setCheckInterval 50 started_app)) = Some \<lparr>timer_id = 1, timeInterval = 50 / 1000\<rparr>"
    using t(2) te by simp
  have c: "timer_log (main_loop (setCheckInterval 50 started_app)) =
        [(Scheduled \<lparr>timer_id = 0, timeInterval = 200 / 1000\<rparr>, [\<lparr>timer_id = 0, timeInterval = 200 / 1000\<rparr>]),
         (Invalidated \<lparr>timer_id = 0, timeInterval = 200 / 1000\<rparr>, []),
         (Scheduled \<lparr>timer_id = 1, timeInterval = 50 / 1000\<rparr>, [\<lparr>timer_id = 1, timeInterval = 50 / 1000\<rparr>])]"
    using t(4) o l0 te by simp
  show ?thesis using h p a b c by (intro conjI) assumption+
qed

section \<open>C9: the keyword dialogs\<close>

text \<open>
  C9: \<open>setMutedKeyword_\<close> and \<open>setUnmutedKeyword_\<close> leave the monitor, the settings
  file and the standard output as they are when the dialog is closed by another button than
  OK, or by OK with an empty input. With OK and an input that is not empty, the keyword of
  the dialog becomes the input, nothing else of the configuration changes, and \<open>save\<close>
  is called on the new configuration. So no dialog makes a keyword the empty text.
\<close>

theorem keyword_dialog_frame:
  "(response \<noteq> NSAlertFirstButtonReturn \<or> new_keyword = [] \<longrightarrow>
      setMutedKeyword response new_keyword st = st \<and> setUnmutedKeyword response new_keyword st = st)
   \<and> (response = NSAlertFirstButtonReturn \<and> new_keyword \<noteq> [] \<longrightarrow>
      setMutedKeyword response new_keyword st =
        st\<lparr>self := (self st)\<lparr>config := (config (self st))\<lparr>muted_keyword := PStr new_keyword\<rparr>\<rparr>,
           files := Config_save ((config (self st))\<lparr>muted_keyword := PStr new_keyword\<rparr>) (files st)\<rparr>
      \<and> setUnmutedKeyword response new_keyword st =
        st\<lparr>self := (self st)\<lparr>config := (config (self st))\<lparr>unmuted_keyword := PStr new_keyword\<rparr>\<rparr>,
           files := Config_save ((config (self st))\<lparr>unmuted_keyword := PStr new_keyword\<rparr>) (files st)\<rparr>)
   \<and> (muted_keyword (config (self (setMutedKeyword response new_keyword st))) = PStr []
        \<longrightarrow> muted_keyword (config (self st)) = PStr [])
   \<and> (unmuted_keyword (config (self (setUnmutedKeyword response new_keyword st))) = PStr []
        \<longrightarrow> unmuted_keyword (config (self st)) = PStr [])
   \<and> (response = NSAlertFirstButtonReturn \<and> new_keyword \<noteq> [] \<and> next_write (files st) = Written \<longrightarrow>
        config_file (files (setMutedKeyword response new_keyword st)) =
          Document (save_data ((config (self st))\<lparr>muted_keyword := PStr new_keyword\<rparr>))
        \<and> config_file (files (setUnmutedKeyword response new_keyword st)) =
          Document (save_data ((config (self st))\<lparr>unmuted_keyword := PStr new_keyword\<rparr>)))"
  by (simp add: setMutedKeyword_def setUnmutedKeyword_def Let_def Config_save_def)

theorem keyword_dialog_frame_witness:
  "setMutedKeyword 1001 (asc ''Unmute'') started_app = started_app
   \<and> setUnmutedKeyword NSAlertFirstButtonReturn [] started_app = started_app
   \<and> muted_keyword (config (self (setMutedKeyword NSAlertFirstButtonReturn (asc ''Unmute'') started_app)))
       = PStr (asc ''Unmute'')
   \<and> config_file (files (setMutedKeyword NSAlertFirstButtonReturn (asc ''Unmute'') started_app))
       = Document (save_data (Config_defaults\<lparr>muted_keyword := PStr (asc ''Unmute'')\<rparr>))"
proof -
  have n: "(1001 :: int) \<noteq> NSAlertFirstButtonReturn" by (simp add: NSAlertFirstButtonReturn_def)
  have e: "asc ''Unmute'' \<noteq> []" by (simp add: asc_def)
  have w: "next_write (files started_app) = Written" by (simp add: started_app_def)
  have c: "config (self started_app) = Config_defaults" by (simp add: started_app_def)
  note t1 = keyword_dialog_frame [of 1001 "asc ''Unmute''" started_app]
  note t2 = keyword_dialog_frame [of NSAlertFirstButtonReturn "[]" started_app]
  note t3 = keyword_dialog_frame [of NSAlertFirstButtonReturn "asc ''Unmute''" started_app]
  have a: "setMutedKeyword 1001 (asc ''Unmute'') started_app = started_app"
    using t1 n by blast
  have b: "setUnmutedKeyword NSAlertFirstButtonReturn [] started_app = started_app"
    using t2 by blast
  have d: "setMutedKeyword NSAlertFirstButtonReturn (asc ''Unmute'') started_app =
        started_app\<lparr>self := (self started_app)\<lparr>config := (config (self started_app))\<lparr>muted_keyword := PStr (asc ''Unmute'')\<rparr>\<rparr>,
           files := Config_save ((config (self started_app))\<lparr>muted_keyword := PStr (asc ''Unmute'')\<rparr>) (files started_app)\<rparr>"
    using t3 e by blast
  have f: "muted_keyword (config (self (setMutedKeyword NSAlertFirstButtonReturn (asc ''Unmute'') started_app)))
       = PStr (asc ''Unmute'')"
    by (simp add: d)
  have g: "config_file (files (setMutedKeyword NSAlertFirstButtonReturn (asc ''Unmute'') started_app))
       = Document (save_data (Config_defaults\<lparr>muted_keyword := PStr (asc ''Unmute'')\<rparr>))"
    by (simp add: d Config_save_def w c)
  show ?thesis using a b f g by (intro conjI) assumption+
qed


end
